theory Spec2Isabelle
  imports Complex_Main "HOL-Library.Multiset"
begin

section \<open>Python values and exceptions\<close>

text \<open>
  The agents exchange loosely typed dictionaries that come out of \<^verbatim>\<open>json.loads\<close>.
  A JSON value is modelled by \<open>pyval\<close>; numbers are exact reals (binary floating
  point rounding, NaN and the infinities of a JSON number are outside the model).
  A dictionary argument of a function is a map from keys to values. A character of a
  string stands for a code point below 256; strings with other code points are outside
  the string type.
\<close>

datatype pyval =
    JNull
  | JBool bool
  | JNum real
  | JStr string
  | JList "pyval list"
  | JDict "(string \<times> pyval) list"

type_synonym pydict = "string \<rightharpoonup> pyval"

datatype py_exception =
    TypeError string
  | NameError string
  | ValueError string
  | AttributeError string
  | MissingGreenlet
  | ValidationError string
  | MultipleResultsFound
  | ProviderError string

text \<open>Python truth value of a JSON value (\<^verbatim>\<open>if x:\<close>).\<close>

fun truthy :: "pyval \<Rightarrow> bool" where
  "truthy JNull = False"
| "truthy (JBool b) = b"
| "truthy (JNum r) = (r \<noteq> 0)"
| "truthy (JStr s) = (s \<noteq> [])"
| "truthy (JList xs) = (xs \<noteq> [])"
| "truthy (JDict kvs) = (kvs \<noteq> [])"

text \<open>Lists and dictionaries are unhashable: using one as a dictionary key raises TypeError.\<close>

fun hashable :: "pyval \<Rightarrow> bool" where
  "hashable (JList xs) = False"
| "hashable (JDict kvs) = False"
| "hashable v = True"

text \<open>\<^verbatim>\<open>len(x)\<close>: defined on strings, lists and dictionaries, TypeError otherwise.\<close>

fun py_len :: "pyval \<Rightarrow> py_exception + nat" where
  "py_len (JStr s) = Inr (length s)"
| "py_len (JList xs) = Inr (length xs)"
| "py_len (JDict kvs) = Inr (length kvs)"
| "py_len v = Inl (TypeError ''object has no len()'')"

text \<open>\<^verbatim>\<open>d.get(key)\<close> on a dictionary of the state: a missing key reads as None.\<close>

definition dict_get :: "pydict \<Rightarrow> string \<Rightarrow> pyval" where
  "dict_get d k = (case d k of None \<Rightarrow> JNull | Some v \<Rightarrow> v)"

text \<open>\<^verbatim>\<open>d.get(key, default)\<close>.\<close>

definition dict_get_default :: "pydict \<Rightarrow> string \<Rightarrow> pyval \<Rightarrow> pyval" where
  "dict_get_default d k dflt = (case d k of None \<Rightarrow> dflt | Some v \<Rightarrow> v)"

text \<open>
  \<^verbatim>\<open>table.get(key, default)\<close> on a literal table with string keys and number values,
  where the key is a value read from a JSON dictionary: an unhashable key raises,
  a key that is not one of the table's strings gives the default.
\<close>

definition table_get :: "(string \<rightharpoonup> real) \<Rightarrow> pyval \<Rightarrow> real \<Rightarrow> py_exception + real" where
  "table_get table key dflt =
     (if \<not> hashable key then Inl (TypeError ''unhashable type'')
      else (case key of
              JStr s \<Rightarrow> (case table s of None \<Rightarrow> Inr dflt | Some w \<Rightarrow> Inr w)
            | _ \<Rightarrow> Inr dflt))"

text \<open>\<^verbatim>\<open>x in [s1, s2, s3]\<close> for a list of string literals: comparison by equality.\<close>

definition in_strings :: "pyval \<Rightarrow> string list \<Rightarrow> bool" where
  "in_strings v names = (case v of JStr s \<Rightarrow> s \<in> set names | _ \<Rightarrow> False)"

section \<open>Parsing a number with \<^verbatim>\<open>float(str)\<close>\<close>

text \<open>
  The result of \<^verbatim>\<open>float\<close> on a string is a finite number, an infinity or NaN;
  a string outside the grammar raises ValueError (None here). The grammar is the one
  of the language reference: optional surrounding white space, an optional sign, then
  \<^verbatim>\<open>inf\<close>, \<^verbatim>\<open>infinity\<close> or \<^verbatim>\<open>nan\<close> in any letter case, or a decimal
  number with optional fraction and exponent, whose digit groups may be separated by
  single underscores. Among the code points below 256 the white space that \<^verbatim>\<open>float\<close>
  strips is the tab to carriage return range 9 to 13, the space 32, the next line
  control 133 and the no-break space 160 (the separators 28 to 31 are not stripped),
  and the decimal digits are the ASCII digits.
\<close>

datatype pyfloat = Fin real | PosInf | NegInf | NaN

definition is_digit :: "char \<Rightarrow> bool" where
  "is_digit c = (let n = (of_char c :: nat) in 48 \<le> n \<and> n \<le> 57)"

definition digit_val :: "char \<Rightarrow> nat" where
  "digit_val c = of_char c - 48"

definition is_space :: "char \<Rightarrow> bool" where
  "is_space c =
     (let n = (of_char c :: nat) in (9 \<le> n \<and> n \<le> 13) \<or> n = 32 \<or> n = 133 \<or> n = 160)"

definition strip :: "string \<Rightarrow> string" where
  "strip s = rev (dropWhile is_space (rev (dropWhile is_space s)))"

definition lower_char :: "char \<Rightarrow> char" where
  "lower_char c =
     (let n = (of_char c :: nat) in if 65 \<le> n \<and> n \<le> 90 then char_of (n + 32) else c)"

text \<open>The longest prefix that is a digit part; returns its digits and the rest.\<close>

fun digitpart :: "string \<Rightarrow> string \<times> string" where
  "digitpart [] = ([], [])"
| "digitpart (c # cs) =
     (if \<not> is_digit c then ([], c # cs)
      else (case cs of
              u # d # rest \<Rightarrow>
                if u = CHR ''_'' \<and> is_digit d
                then (case digitpart (d # rest) of (ds, r) \<Rightarrow> (c # ds, r))
                else (case digitpart cs of (ds, r) \<Rightarrow> (c # ds, r))
            | _ \<Rightarrow> (case digitpart cs of (ds, r) \<Rightarrow> (c # ds, r))))"

definition decimal :: "string \<Rightarrow> nat" where
  "decimal ds = foldl (\<lambda>acc c. 10 * acc + digit_val c) 0 ds"

text \<open>The exponent part: empty, or e/E, an optional sign and a digit part up to the end.\<close>

definition exponent :: "string \<Rightarrow> int option" where
  "exponent s =
     (case s of
        [] \<Rightarrow> Some 0
      | e # r \<Rightarrow>
          if e = CHR ''e'' \<or> e = CHR ''E'' then
            (let neg = (case r of [] \<Rightarrow> False | x # _ \<Rightarrow> x = CHR ''-'');
                 signed = (case r of [] \<Rightarrow> False | x # _ \<Rightarrow> x = CHR ''-'' \<or> x = CHR ''+'');
                 body = (if signed then tl r else r)
             in (case digitpart body of
                   (ds, rest) \<Rightarrow>
                     if ds = [] \<or> rest \<noteq> [] then None
                     else Some (if neg then - int (decimal ds) else int (decimal ds))))
          else None)"

definition scale10 :: "real \<Rightarrow> int \<Rightarrow> real" where
  "scale10 m e = (if 0 \<le> e then m * 10 ^ nat e else m / 10 ^ nat (- e))"

definition parse_number :: "string \<Rightarrow> real option" where
  "parse_number s =
     (case digitpart s of
        (ip, r1) \<Rightarrow>
          (let dot = (case r1 of [] \<Rightarrow> False | x # _ \<Rightarrow> x = CHR ''.'');
               (fp, r2) = (if dot then digitpart (tl r1) else ([], r1))
           in if ip = [] \<and> fp = [] then None
              else (case exponent r2 of
                      None \<Rightarrow> None
                    | Some e \<Rightarrow>
                        Some (scale10 (real (decimal (ip @ fp))) (e - int (length fp))))))"

definition py_float :: "string \<Rightarrow> pyfloat option" where
  "py_float s =
     (case strip s of
        [] \<Rightarrow> None
      | c # cs \<Rightarrow>
          (let neg = (c = CHR ''-'');
               body = (if c = CHR ''-'' \<or> c = CHR ''+'' then cs else c # cs);
               word = map lower_char body
           in if word = ''inf'' \<or> word = ''infinity'' then Some (if neg then NegInf else PosInf)
              else if word = ''nan'' then Some NaN
              else (case parse_number body of
                      None \<Rightarrow> None
                    | Some r \<Rightarrow> Some (Fin (if neg then - r else r)))))"

text \<open>\<^verbatim>\<open>x > k\<close> for a float x and a finite constant k: false on NaN.\<close>

fun float_gt :: "pyfloat \<Rightarrow> real \<Rightarrow> bool" where
  "float_gt (Fin r) k = (k < r)"
| "float_gt PosInf k = True"
| "float_gt NegInf k = False"
| "float_gt NaN k = False"

text \<open>
  \<^verbatim>\<open>float(str(entities["amount"]).replace("$", "").replace(",", ""))\<close>, with the
  ValueError and TypeError the source catches read as None. A string goes through
  the two replacements and the parser. A number prints to a string that parses
  back to itself. True prints as \<^verbatim>\<open>True\<close>, a list or a dictionary prints with
  a leading bracket, and None prints as \<^verbatim>\<open>None\<close>: none of them parses.
\<close>

definition remove_char :: "char \<Rightarrow> string \<Rightarrow> string" where
  "remove_char c s = filter (\<lambda>x. x \<noteq> c) s"

fun amount_float :: "pyval \<Rightarrow> pyfloat option" where
  "amount_float (JStr s) = py_float (remove_char (CHR '','') (remove_char (CHR ''$'') s))"
| "amount_float (JNum r) = Some (Fin r)"
| "amount_float v = None"

section \<open>Complaint Sorter Agent: priority score\<close>

text \<open>\<^verbatim>\<open>ComplaintSorterAgent._calculate_priority_score\<close> (complaint_sorter.py).\<close>

definition sorter_urgency_weights :: "string \<rightharpoonup> real" where
  "sorter_urgency_weights =
     [''low'' \<mapsto> 0, ''medium'' \<mapsto> 0.2, ''high'' \<mapsto> 0.4, ''critical'' \<mapsto> 0.6]"

definition high_priority_issues :: "string list" where
  "high_priority_issues = [''fraud'', ''unauthorized_charges'', ''discrimination'']"

definition priority_amount_step :: "pydict \<Rightarrow> real \<Rightarrow> real" where
  "priority_amount_step entities score =
     (if truthy (dict_get entities ''amount'') then
        (case amount_float (dict_get entities ''amount'') of
           None \<Rightarrow> score
         | Some amount \<Rightarrow>
             if float_gt amount 10000 then score + 0.3
             else if float_gt amount 1000 then score + 0.2
             else if float_gt amount 100 then score + 0.1
             else score)
      else score)"

definition calculate_priority_score :: "pydict \<Rightarrow> pydict \<Rightarrow> py_exception + real" where
  "calculate_priority_score classification entities =
     (case table_get sorter_urgency_weights
             (dict_get_default classification ''urgency_level'' (JStr ''medium'')) 0.2 of
        Inl e \<Rightarrow> Inl e
      | Inr w \<Rightarrow>
          (let score = 0.3 + w;
               score = priority_amount_step entities score;
               score = (if in_strings (dict_get classification ''issue_category'') high_priority_issues
                        then score + 0.2 else score)
           in Inr (min score 1.0)))"

text \<open>
  The closed form the specification gives for the score: the urgency weight table
  (with the source's default for any other value), the amount tier bonus on the
  amount the entity holds, and the bonus for a high priority issue category.
\<close>

definition urgency_of :: "pydict \<Rightarrow> pyval" where
  "urgency_of classification =
     (case classification ''urgency_level'' of None \<Rightarrow> JStr ''medium'' | Some v \<Rightarrow> v)"

definition entity_amount :: "pydict \<Rightarrow> pyfloat option" where
  "entity_amount entities =
     (case entities ''amount'' of
        None \<Rightarrow> None
      | Some v \<Rightarrow> if truthy v then amount_float v else None)"

definition spec_urgency_weight :: "pyval \<Rightarrow> real" where
  "spec_urgency_weight u =
     (if u = JStr ''low'' then 0
      else if u = JStr ''medium'' then 0.2
      else if u = JStr ''high'' then 0.4
      else if u = JStr ''critical'' then 0.6
      else 0.2)"

definition spec_amount_bonus :: "pyfloat option \<Rightarrow> real" where
  "spec_amount_bonus a =
     (case a of
        None \<Rightarrow> 0
      | Some x \<Rightarrow>
          if float_gt x 10000 then 0.3
          else if float_gt x 1000 then 0.2
          else if float_gt x 100 then 0.1
          else 0)"

text \<open>The amount tier bonus as a function of the amount itself.\<close>

definition spec_amount_tier :: "real \<Rightarrow> real" where
  "spec_amount_tier a =
     (if a > 10000 then 0.3 else if a > 1000 then 0.2 else if a > 100 then 0.1 else 0)"

text \<open>A classification that adds nothing to the base: urgency low, issue category other.\<close>

definition low_other :: pydict where
  "low_other = [''urgency_level'' \<mapsto> JStr ''low'', ''issue_category'' \<mapsto> JStr ''other'']"

definition spec_issue_bonus :: "pydict \<Rightarrow> real" where
  "spec_issue_bonus classification =
     (if classification ''issue_category'' = Some (JStr ''fraud'')
         \<or> classification ''issue_category'' = Some (JStr ''unauthorized_charges'')
         \<or> classification ''issue_category'' = Some (JStr ''discrimination'')
      then 0.2 else 0)"

section \<open>Risk Model Service\<close>

text \<open>
  \<^verbatim>\<open>RiskModel._calculate_rule_based_risk\<close>, \<^verbatim>\<open>_explain_risk_factors\<close>,
  \<^verbatim>\<open>_default_risk_assessment\<close> and \<^verbatim>\<open>predict_risk\<close> (risk_model.py). The feature
  dictionary holds numbers only; it is an association list, so that the test
  \<^verbatim>\<open>if not features\<close> is the test for the empty list. \<open>predict_risk\<close> starts from
  the dictionary that \<^verbatim>\<open>extract_features\<close> returned (empty when extraction failed):
  the label encoders and the database query behind it are not modelled.
\<close>

type_synonym features = "(string \<times> real) list"

definition feature_get :: "features \<Rightarrow> string \<Rightarrow> real \<Rightarrow> real" where
  "feature_get fs k dflt = (case map_of fs k of None \<Rightarrow> dflt | Some v \<Rightarrow> v)"

definition risk_urgency_weights :: "string \<rightharpoonup> real" where
  "risk_urgency_weights =
     [''low'' \<mapsto> 0.0, ''medium'' \<mapsto> 0.1, ''high'' \<mapsto> 0.2, ''critical'' \<mapsto> 0.3]"

definition high_risk_issues :: "string list" where
  "high_risk_issues = [''unauthorized_charges'', ''fraud'', ''discrimination'']"

definition calculate_rule_based_risk ::
  "features \<Rightarrow> pydict \<Rightarrow> pydict \<Rightarrow> py_exception + real" where
  "calculate_rule_based_risk features sentiment classification =
     (case table_get risk_urgency_weights
             (dict_get_default classification ''urgency_level'' (JStr ''medium'')) 0.1 of
        Inl e \<Rightarrow> Inl e
      | Inr w \<Rightarrow>
          (let risk_score = 0.3 + w;
               risk_score = (if dict_get sentiment ''sentiment'' = JStr ''negative''
                             then risk_score + 0.2 else risk_score);
               risk_score = (if dict_get sentiment ''emotion'' = JStr ''angry''
                             then risk_score + 0.15 else risk_score);
               risk_score = (if in_strings (dict_get classification ''issue_category'') high_risk_issues
                             then risk_score + 0.2 else risk_score);
               risk_score = (if feature_get features ''historical_complaints'' 0 > 2
                             then risk_score + 0.1 else risk_score);
               risk_score = (if feature_get features ''amount_mentioned'' 0 > 0
                             then risk_score + 0.1 else risk_score)
           in Inr (min risk_score 1.0)))"

record risk_factors =
  primary_factors :: "string list"
  contributing_factors :: "string list"
  mitigating_factors :: "string list"

definition explain_risk_factors :: "features \<Rightarrow> pydict \<Rightarrow> pydict \<Rightarrow> risk_factors" where
  "explain_risk_factors features sentiment classification =
     \<lparr> primary_factors =
         (if in_strings (dict_get classification ''urgency_level'') [''high'', ''critical'']
          then [''High urgency complaint''] else [])
         @ (if dict_get sentiment ''sentiment'' = JStr ''negative''
            then [''Negative sentiment detected''] else []),
       contributing_factors =
         (if feature_get features ''historical_complaints'' 0 > 1
          then [''Multiple previous complaints''] else [])
         @ (if feature_get features ''amount_mentioned'' 0 > 0
            then [''Financial amount mentioned''] else []),
       mitigating_factors =
         (if feature_get features ''days_since_last_complaint'' 0 > 180
          then [''No recent complaints''] else []) \<rparr>"

record risk_assessment =
  risk_score :: real
  risk_category :: string
  confidence :: real
  factors :: risk_factors
  model_version :: string

definition default_risk_assessment :: risk_assessment where
  "default_risk_assessment =
     \<lparr> risk_score = 0.5, risk_category = ''medium'', confidence = 0.5,
       factors = \<lparr> primary_factors = [''Unable to assess risk''],
                   contributing_factors = [], mitigating_factors = [] \<rparr>,
       model_version = ''1.0.0'' \<rparr>"

definition predict_risk :: "features \<Rightarrow> pydict \<Rightarrow> pydict \<Rightarrow> risk_assessment" where
  "predict_risk features sentiment classification =
     (if features = [] then default_risk_assessment
      else (case calculate_rule_based_risk features sentiment classification of
              Inl e \<Rightarrow> default_risk_assessment
            | Inr score \<Rightarrow>
                \<lparr> risk_score = score,
                  risk_category =
                    (if score \<ge> 0.7 then ''high''
                     else if score \<ge> 0.4 then ''medium''
                     else ''low''),
                  confidence = 0.85,
                  factors = explain_risk_factors features sentiment classification,
                  model_version = ''1.0.0'' \<rparr>))"

text \<open>
  The part of the rule based score that does not depend on the urgency level:
  the sum of the sentiment, emotion, issue, history and amount increments.
\<close>

definition risk_other_increments :: "features \<Rightarrow> pydict \<Rightarrow> pydict \<Rightarrow> real" where
  "risk_other_increments features sentiment classification =
     (if dict_get sentiment ''sentiment'' = JStr ''negative'' then 0.2 else 0)
     + (if dict_get sentiment ''emotion'' = JStr ''angry'' then 0.15 else 0)
     + (if in_strings (dict_get classification ''issue_category'') high_risk_issues then 0.2 else 0)
     + (if feature_get features ''historical_complaints'' 0 > 2 then 0.1 else 0)
     + (if feature_get features ''amount_mentioned'' 0 > 0 then 0.1 else 0)"

text \<open>The score at a given urgency level, every other input as given.\<close>

definition risk_at :: "features \<Rightarrow> pydict \<Rightarrow> pydict \<Rightarrow> string \<Rightarrow> py_exception + real" where
  "risk_at features sentiment classification urgency =
     calculate_rule_based_risk features sentiment
       (classification(''urgency_level'' \<mapsto> JStr urgency))"

section \<open>Risk Checker Agent: escalation probability\<close>













text \<open>Inputs at which the urgency increment is hidden by the cap of the risk score.\<close>

definition saturating_features :: features where
  "saturating_features = [(''historical_complaints'', 0), (''amount_mentioned'', 1)]"

definition saturating_sentiment :: pydict where
  "saturating_sentiment = [''sentiment'' \<mapsto> JStr ''negative'', ''emotion'' \<mapsto> JStr ''angry'']"

definition saturating_classification :: pydict where
  "saturating_classification = [''issue_category'' \<mapsto> JStr ''fraud'']"






section \<open>Authentication endpoints\<close>

text \<open>
  The \<^verbatim>\<open>users\<close> table is the list of its rows. \<^verbatim>\<open>scalar_one_or_none\<close> returns the only
  row of a result, None for an empty result, and raises on more than one row.
  Password verification (\<^verbatim>\<open>pwd_context.verify\<close> of the password library) is the
  parameter \<open>verify\<close>: it returns a truth value or raises, and \<^verbatim>\<open>verify_password\<close>
  passes the exception on.
\<close>

record user =
  user_id :: string
  email :: string
  hashed_password :: string
  first_name :: string
  last_name :: string
  tenant_id :: string
  role :: string
  is_active :: bool

fun scalar_one_or_none :: "'a list \<Rightarrow> py_exception + 'a option" where
  "scalar_one_or_none [] = Inr None"
| "scalar_one_or_none [x] = Inr (Some x)"
| "scalar_one_or_none (x # y # zs) = Inl MultipleResultsFound"

definition active_users_by_email :: "user list \<Rightarrow> string \<Rightarrow> string \<Rightarrow> user list" where
  "active_users_by_email users em tid =
     filter (\<lambda>u. email u = em \<and> tenant_id u = tid \<and> is_active u = True) users"

definition get_user_by_email :: "user list \<Rightarrow> string \<Rightarrow> string \<Rightarrow> py_exception + user option" where
  "get_user_by_email users em tid = scalar_one_or_none (active_users_by_email users em tid)"

definition authenticate_user ::
  "(string \<Rightarrow> string \<Rightarrow> py_exception + bool) \<Rightarrow> user list \<Rightarrow> string \<Rightarrow> string \<Rightarrow> string
   \<Rightarrow> py_exception + user option" where
  "authenticate_user verify users em password tid =
     (case get_user_by_email users em tid of
        Inl e \<Rightarrow> Inl e
      | Inr None \<Rightarrow> Inr None
      | Inr (Some u) \<Rightarrow>
          (case verify password (hashed_password u) of
             Inl e \<Rightarrow> Inl e
           | Inr verified \<Rightarrow> if \<not> verified then Inr None else Inr (Some u)))"

record http_exception =
  status_code :: nat
  detail :: string

text \<open>
  The token response. The signed token string is represented by the claims it
  encodes (subject, tenant and role); \<open>expire_minutes\<close> is the configured
  \<^verbatim>\<open>ACCESS_TOKEN_EXPIRE_MINUTES\<close>.
\<close>

record token =
  access_token :: "string \<times> string \<times> string"
  token_type :: string
  expires_in :: int
  token_user_id :: string
  token_tenant_id :: string
  token_role :: string

definition token_for :: "int \<Rightarrow> user \<Rightarrow> token" where
  "token_for expire_minutes u =
     \<lparr> access_token = (user_id u, tenant_id u, role u),
       token_type = ''bearer'',
       expires_in = expire_minutes * 60,
       token_user_id = user_id u,
       token_tenant_id = tenant_id u,
       token_role = role u \<rparr>"

definition login_user ::
  "(string \<Rightarrow> string \<Rightarrow> py_exception + bool) \<Rightarrow> int \<Rightarrow> user list \<Rightarrow> string \<Rightarrow> string \<Rightarrow> string
   \<Rightarrow> http_exception + token" where
  "login_user verify expire_minutes users em password tid =
     (case authenticate_user verify users em password tid of
        Inl e \<Rightarrow> Inl \<lparr> status_code = 500, detail = ''Login failed'' \<rparr>
      | Inr None \<Rightarrow> Inl \<lparr> status_code = 401, detail = ''Incorrect credentials'' \<rparr>
      | Inr (Some u) \<Rightarrow> Inr (token_for expire_minutes u))"

text \<open>\<^verbatim>\<open>s.split(c)\<close> for a separator of one character: never the empty list.\<close>

fun split_char :: "char \<Rightarrow> string \<Rightarrow> string list" where
  "split_char c [] = [[]]"
| "split_char c (x # xs) =
     (if x = c then [] # split_char c xs
      else (case split_char c xs of
              [] \<Rightarrow> [[x]]
            | w # ws \<Rightarrow> (x # w) # ws))"

text \<open>
  The first part of \<^verbatim>\<open>login_for_access_token\<close>: the email and the tenant id read
  from the combined username, or the 400 response.
\<close>

definition parse_combined_username :: "string \<Rightarrow> http_exception + (string \<times> string)" where
  "parse_combined_username username =
     (if CHR ''@'' \<notin> set username
      then Inl \<lparr> status_code = 400, detail = ''Invalid username format'' \<rparr>
      else (case split_char (CHR ''@'') username of
              [part0, part1] \<Rightarrow>
                (let em = part0 @ ''@'' @ hd (split_char (CHR ''_'') part1);
                     tid = (if CHR ''_'' \<in> set part1 then last (split_char (CHR ''_'') part1)
                            else ''default'')
                 in Inr (em, tid))
            | _ \<Rightarrow> Inl \<lparr> status_code = 400, detail = ''Invalid username format'' \<rparr>))"

definition login_for_access_token ::
  "(string \<Rightarrow> string \<Rightarrow> py_exception + bool) \<Rightarrow> int \<Rightarrow> user list \<Rightarrow> string \<Rightarrow> string
   \<Rightarrow> http_exception + token" where
  "login_for_access_token verify expire_minutes users username password =
     (case parse_combined_username username of
        Inl e \<Rightarrow> Inl e
      | Inr (em, tid) \<Rightarrow>
          (case authenticate_user verify users em password tid of
             Inl e \<Rightarrow> Inl \<lparr> status_code = 500, detail = ''Login failed'' \<rparr>
           | Inr None \<Rightarrow> Inl \<lparr> status_code = 401, detail = ''Incorrect email or password'' \<rparr>
           | Inr (Some u) \<Rightarrow> Inr (token_for expire_minutes u)))"

text \<open>The text before the first and after the last occurrence of a character.\<close>

definition before_first :: "char \<Rightarrow> string \<Rightarrow> string" where
  "before_first c s = takeWhile (\<lambda>x. x \<noteq> c) s"

definition after_last :: "char \<Rightarrow> string \<Rightarrow> string" where
  "after_last c s = rev (takeWhile (\<lambda>x. x \<noteq> c) (rev s))"

text \<open>Example rows of the users table.\<close>

definition alice :: user where
  "alice = \<lparr> user_id = ''u-1'', email = ''alice@example.com'', hashed_password = ''hash-a'',
             first_name = ''Alice'', last_name = ''A'', tenant_id = ''t-1'', role = ''admin'',
             is_active = True \<rparr>"

definition bob :: user where
  "bob = \<lparr> user_id = ''u-2'', email = ''bob@example.com'', hashed_password = ''hash-b'',
           first_name = ''Bob'', last_name = ''B'', tenant_id = ''t-1'', role = ''consumer'',
           is_active = True \<rparr>"

text \<open>
  An example of a verification function with the size limit of the password library:
  a secret of more than 4096 characters raises, any other is compared with the hash.
\<close>

definition example_verify :: "string \<Rightarrow> string \<Rightarrow> py_exception + bool" where
  "example_verify password hashed =
     (if length password > 4096 then Inl (ValueError ''password exceeds maximum allowed size'')
      else Inr (hashed = ''hash-'' @ password))"

definition oversized_password :: string where
  "oversized_password = replicate 4097 (CHR ''x'')"

section \<open>Admin endpoint: deactivate user\<close>

text \<open>
  \<^verbatim>\<open>deactivate_user\<close> with its dependency \<^verbatim>\<open>require_admin_role\<close> (admin.py). The
  database state is the users table and the audit log table; the endpoint returns
  its response together with the state it leaves.
\<close>

record audit_log =
  log_tenant_id :: string
  log_user_id :: string
  log_action :: string
  log_payload :: "(string \<times> string) list"

record database =
  users :: "user list"
  audit_logs :: "audit_log list"

definition require_admin_role :: "user \<Rightarrow> http_exception + user" where
  "require_admin_role current_user =
     (if role current_user \<notin> set [''admin'', ''regulator'']
      then Inl \<lparr> status_code = 403, detail = ''Admin access required'' \<rparr>
      else Inr current_user)"

definition set_inactive :: "string \<Rightarrow> string \<Rightarrow> user list \<Rightarrow> user list" where
  "set_inactive uid tid rows =
     map (\<lambda>u. if user_id u = uid \<and> tenant_id u = tid then u\<lparr> is_active := False \<rparr> else u) rows"

definition deactivate_user ::
  "database \<Rightarrow> user \<Rightarrow> string \<Rightarrow> (http_exception + (string \<times> string) list) \<times> database" where
  "deactivate_user db caller uid =
     (case require_admin_role caller of
        Inl e \<Rightarrow> (Inl e, db)
      | Inr current_user \<Rightarrow>
          (case scalar_one_or_none
                  (filter (\<lambda>u. user_id u = uid \<and> tenant_id u = tenant_id current_user) (users db)) of
             Inl e \<Rightarrow> (Inl \<lparr> status_code = 500, detail = ''Failed to deactivate user'' \<rparr>, db)
           | Inr None \<Rightarrow> (Inl \<lparr> status_code = 404, detail = ''User not found'' \<rparr>, db)
           | Inr (Some target) \<Rightarrow>
               if user_id target = user_id current_user
               then (Inl \<lparr> status_code = 400, detail = ''Cannot deactivate your own account'' \<rparr>, db)
               else
                 (let db1 = db\<lparr> users := set_inactive uid (tenant_id current_user) (users db) \<rparr>;
                      entry = \<lparr> log_tenant_id = tenant_id current_user,
                                log_user_id = user_id current_user,
                                log_action = ''user_deactivated'',
                                log_payload = [(''user_id'', uid), (''email'', email target)] \<rparr>;
                      db2 = db1\<lparr> audit_logs := audit_logs db1 @ [entry] \<rparr>
                  in (Inr [(''message'', ''User deactivated successfully''), (''user_id'', uid)],
                      db2))))"

definition example_database :: database where
  "example_database = \<lparr> users = [alice, bob], audit_logs = [] \<rparr>"

section \<open>Embedding Service: similar complaints\<close>

text \<open>
  \<^verbatim>\<open>EmbeddingService.find_similar_complaints\<close> (embeddings.py). The tables are lists
  of rows in storage order; time stamps are integers. The query is evaluated in the
  order of SQL: the left join of complaints with their risk score rows, the
  \<^verbatim>\<open>WHERE\<close> filter, \<^verbatim>\<open>ORDER BY c.created_at DESC\<close>, then \<^verbatim>\<open>LIMIT\<close>. SQL leaves the
  order of rows with equal creation time open; the model keeps them in join order.
  The embedding call to the provider is the parameter \<open>create_embedding\<close>. A negative
  limit is rejected by the database, and the exception handler returns the empty list.
\<close>

record complaint_raw =
  c_id :: int
  c_tenant_id :: string
  c_user_id :: "string option"
  c_narrative :: string
  c_product :: "string option"
  c_issue :: "string option"
  c_company :: "string option"
  c_embedding :: "string option"
  c_created_at :: int

record risk_score_row =
  r_id :: int
  r_complaint_id :: int
  r_tenant_id :: string
  r_risk :: real
  r_category :: string
  r_factors :: pyval
  r_model_version :: string
  r_created_at :: int

record similar_complaint =
  s_id :: int
  s_narrative :: string
  s_product :: "string option"
  s_issue :: "string option"
  s_company :: "string option"
  s_created_at :: int
  s_risk_score :: "real option"
  s_risk_category :: "string option"
  s_similarity_score :: real

definition risk_rows_of :: "risk_score_row list \<Rightarrow> int \<Rightarrow> risk_score_row list" where
  "risk_rows_of risks cid = filter (\<lambda>r. r_complaint_id r = cid) risks"

definition left_join_risk ::
  "complaint_raw list \<Rightarrow> risk_score_row list \<Rightarrow> (complaint_raw \<times> risk_score_row option) list" where
  "left_join_risk complaints risks =
     concat (map (\<lambda>c. if risk_rows_of risks (c_id c) = [] then [(c, None)]
                        else map (\<lambda>r. (c, Some r)) (risk_rows_of risks (c_id c)))
                 complaints)"

definition similar_row :: "complaint_raw \<times> risk_score_row option \<Rightarrow> similar_complaint" where
  "similar_row row =
     \<lparr> s_id = c_id (fst row),
       s_narrative = c_narrative (fst row),
       s_product = c_product (fst row),
       s_issue = c_issue (fst row),
       s_company = c_company (fst row),
       s_created_at = c_created_at (fst row),
       s_risk_score = map_option r_risk (snd row),
       s_risk_category = map_option r_category (snd row),
       s_similarity_score = 0.85 \<rparr>"

definition similar_query ::
  "complaint_raw list \<Rightarrow> risk_score_row list \<Rightarrow> string \<Rightarrow> nat
   \<Rightarrow> (complaint_raw \<times> risk_score_row option) list" where
  "similar_query complaints risks tid limit =
     take limit
       (sort_key (\<lambda>row. - c_created_at (fst row))
          (filter (\<lambda>row. c_tenant_id (fst row) = tid \<and> c_embedding (fst row) \<noteq> None)
             (left_join_risk complaints risks)))"

definition find_similar_complaints ::
  "(string \<Rightarrow> py_exception + real list) \<Rightarrow> complaint_raw list \<Rightarrow> risk_score_row list
   \<Rightarrow> string \<Rightarrow> string \<Rightarrow> int \<Rightarrow> real \<Rightarrow> similar_complaint list" where
  "find_similar_complaints create_embedding complaints risks query_text tid limit similarity_threshold =
     (case create_embedding query_text of
        Inl e \<Rightarrow> []
      | Inr query_embedding \<Rightarrow>
          if limit < 0 then []
          else map similar_row (similar_query complaints risks tid (nat limit)))"

text \<open>
  The most recently created risk score row of a complaint, in the words of the
  specification: the row of greatest creation time (the later row on a tie).
\<close>

definition most_recent_risk :: "risk_score_row list \<Rightarrow> int \<Rightarrow> risk_score_row option" where
  "most_recent_risk risks cid =
     (case risk_rows_of risks cid of
        [] \<Rightarrow> None
      | r # rs \<Rightarrow>
          Some (foldl (\<lambda>best x. if r_created_at best \<le> r_created_at x then x else best) r rs))"

text \<open>
  The rows the query is specified to list for a tenant, before ordering and limit: for
  each complaint of the tenant that has a stored embedding, one row for each risk score
  row that points to it, or a single row with empty risk fields when none does; every
  row carries the similarity score 0.85.
\<close>

definition complaint_summary ::
  "complaint_raw \<Rightarrow> real option \<Rightarrow> string option \<Rightarrow> similar_complaint" where
  "complaint_summary c risk category =
     \<lparr> s_id = c_id c, s_narrative = c_narrative c, s_product = c_product c,
       s_issue = c_issue c, s_company = c_company c, s_created_at = c_created_at c,
       s_risk_score = risk, s_risk_category = category, s_similarity_score = 0.85 \<rparr>"

definition expected_rows_of ::
  "risk_score_row list \<Rightarrow> complaint_raw \<Rightarrow> similar_complaint list" where
  "expected_rows_of risks c =
     (if filter (\<lambda>r. r_complaint_id r = c_id c) risks = []
      then [complaint_summary c None None]
      else map (\<lambda>r. complaint_summary c (Some (r_risk r)) (Some (r_category r)))
             (filter (\<lambda>r. r_complaint_id r = c_id c) risks))"

definition expected_similar_rows ::
  "complaint_raw list \<Rightarrow> risk_score_row list \<Rightarrow> string \<Rightarrow> similar_complaint list" where
  "expected_similar_rows complaints risks tid =
     concat (map (expected_rows_of risks)
               (filter (\<lambda>c. c_tenant_id c = tid \<and> c_embedding c \<noteq> None) complaints))"

text \<open>A tenant with one embedded complaint that was scored twice.\<close>

definition scored_twice_complaints :: "complaint_raw list" where
  "scored_twice_complaints =
     [\<lparr> c_id = 1, c_tenant_id = ''t-1'', c_user_id = Some ''u-2'',
        c_narrative = ''Card charged twice'', c_product = Some ''credit_card'',
        c_issue = Some ''billing_dispute'', c_company = Some ''bank_a'',
        c_embedding = Some ''[0.1, 0.2]'', c_created_at = 100 \<rparr>]"

definition scored_twice_risks :: "risk_score_row list" where
  "scored_twice_risks =
     [\<lparr> r_id = 1, r_complaint_id = 1, r_tenant_id = ''t-1'', r_risk = 0.2, r_category = ''low'',
        r_factors = JDict [], r_model_version = ''1.0.0'', r_created_at = 101 \<rparr>,
      \<lparr> r_id = 2, r_complaint_id = 1, r_tenant_id = ''t-1'', r_risk = 0.9, r_category = ''high'',
        r_factors = JDict [], r_model_version = ''1.0.0'', r_created_at = 200 \<rparr>]"

text \<open>
  Four complaints: one of the tenant scored twice, one of the tenant never scored, one
  of the tenant without embedding, and one of another tenant.
\<close>

definition mixed_complaints :: "complaint_raw list" where
  "mixed_complaints =
     [\<lparr> c_id = 1, c_tenant_id = ''t-1'', c_user_id = Some ''u-2'',
        c_narrative = ''Card charged twice'', c_product = Some ''credit_card'',
        c_issue = Some ''billing_dispute'', c_company = Some ''bank_a'',
        c_embedding = Some ''[0.1, 0.2]'', c_created_at = 100 \<rparr>,
      \<lparr> c_id = 2, c_tenant_id = ''t-1'', c_user_id = Some ''u-2'',
        c_narrative = ''Loan terms changed'', c_product = Some ''loan'',
        c_issue = None, c_company = None,
        c_embedding = Some ''[0.3, 0.4]'', c_created_at = 300 \<rparr>,
      \<lparr> c_id = 3, c_tenant_id = ''t-1'', c_user_id = None,
        c_narrative = ''Branch closed early'', c_product = None,
        c_issue = None, c_company = None,
        c_embedding = None, c_created_at = 400 \<rparr>,
      \<lparr> c_id = 4, c_tenant_id = ''t-2'', c_user_id = None,
        c_narrative = ''Transfer lost'', c_product = None,
        c_issue = None, c_company = None,
        c_embedding = Some ''[0.5, 0.6]'', c_created_at = 500 \<rparr>]"

definition mixed_risks :: "risk_score_row list" where
  "mixed_risks =
     scored_twice_risks @
     [\<lparr> r_id = 3, r_complaint_id = 4, r_tenant_id = ''t-2'', r_risk = 0.5, r_category = ''medium'',
        r_factors = JDict [], r_model_version = ''1.0.0'', r_created_at = 501 \<rparr>]"

definition embedding_ok :: "string \<Rightarrow> py_exception + real list" where
  "embedding_ok query_text = Inr [0.5, 0.5]"

definition embedding_down :: "string \<Rightarrow> py_exception + real list" where
  "embedding_down query_text = Inl (ProviderError ''connection refused'')"

section \<open>Workflow Orchestrator\<close>

text \<open>
  \<^verbatim>\<open>ComplaintWorkflowGraph\<close> (workflow.py). The working state is a record of the keys
  of \<^verbatim>\<open>initial_state\<close>; its dictionary and list values are JSON values. The six
  agents are parameters: an agent takes the database session and the state and returns
  the state (each agent's \<^verbatim>\<open>process\<close> handles its own exceptions). The one-line
  summary a node formats from the result state is the parameter \<open>summary\<close>, the clock
  reading is \<open>now\<close>, and \<open>enter_db\<close> is the outcome of \<^verbatim>\<open>async with get_db() as db\<close>.
  Pictographs in the message texts are left out.
\<close>

datatype message = HumanMessage string | AIMessage string

record processing_step =
  step_agent :: string
  step_status :: string
  step_execution_time :: real

record complaint_state =
  st_complaint_id :: int
  st_tenant_id :: string
  st_user_id :: string
  st_narrative :: string
  st_entities :: pyval
  st_sentiment :: pyval
  st_classification :: pyval
  st_similar_complaints :: pyval
  st_benchmarks :: pyval
  st_risk_assessment :: pyval
  st_solution :: pyval
  st_feedback_analysis :: pyval
  st_redacted_narrative :: string
  st_pii_detected :: bool
  st_metadata :: pyval
  st_messages :: "message list"
  st_current_agent :: string
  st_processing_steps :: "processing_step list"
  st_errors :: "string list"

definition state_keys :: "string list" where
  "state_keys =
     [''complaint_id'', ''tenant_id'', ''user_id'', ''narrative'', ''entities'', ''sentiment'',
      ''classification'', ''similar_complaints'', ''benchmarks'', ''risk_assessment'',
      ''solution'', ''feedback_analysis'', ''redacted_narrative'', ''pii_detected'',
      ''metadata'', ''messages'', ''current_agent'', ''processing_steps'', ''errors'']"

definition initial_state :: "int \<Rightarrow> string \<Rightarrow> string \<Rightarrow> string \<Rightarrow> complaint_state" where
  "initial_state cid narrative tid uid =
     \<lparr> st_complaint_id = cid, st_tenant_id = tid, st_user_id = uid, st_narrative = narrative,
       st_entities = JDict [], st_sentiment = JDict [], st_classification = JDict [],
       st_similar_complaints = JList [], st_benchmarks = JDict [],
       st_risk_assessment = JDict [], st_solution = JDict [], st_feedback_analysis = JDict [],
       st_redacted_narrative = [], st_pii_detected = False, st_metadata = JDict [],
       st_messages = [HumanMessage (''Process complaint: '' @ narrative)],
       st_current_agent = [], st_processing_steps = [], st_errors = [] \<rparr>"

text \<open>
  The names bound at module level in workflow.py: its imports, the logger, the class
  and the global instance. Reading any other name that is not a builtin raises
  NameError.
\<close>

definition workflow_module_names :: "string list" where
  "workflow_module_names =
     [''logging'', ''asyncio'', ''TypedDict'', ''Annotated'', ''List'', ''AsyncSession'',
      ''StateGraph'', ''END'', ''BaseMessage'', ''HumanMessage'', ''AIMessage'', ''ChatOpenAI'',
      ''get_db'', ''settings'', ''ComplaintState'', ''complaint_reader_agent'',
      ''complaint_sorter_agent'', ''stats_finder_agent'', ''risk_checker_agent'',
      ''solution_helper_agent'', ''feedback_logger_agent'', ''logger'',
      ''ComplaintWorkflowGraph'', ''complaint_workflow_graph'']"

definition global_name :: "string \<Rightarrow> py_exception + unit" where
  "global_name n = (if n \<in> set workflow_module_names then Inr () else Inl (NameError n))"

fun str_exception :: "py_exception \<Rightarrow> string" where
  "str_exception (NameError n) = ''name '' @ [CHR 0x27] @ n @ [CHR 0x27] @ '' is not defined''"
| "str_exception (TypeError m) = m"
| "str_exception (ValueError m) = m"
| "str_exception (AttributeError m) = m"
| "str_exception MissingGreenlet = ''greenlet_spawn has not been called''"
| "str_exception (ValidationError m) = m"
| "str_exception MultipleResultsFound = ''Multiple rows were found when one or none was required''"
| "str_exception (ProviderError m) = m"

record communication_entry =
  ce_timestamp :: real
  ce_from_agent :: string
  ce_to_agent :: string
  ce_message :: string
  ce_complaint_id :: int
  ce_entities_count :: nat
  ce_classification_available :: bool
  ce_risk_assessed :: bool
  ce_solution_generated :: bool

definition send_agent_message ::
  "real \<Rightarrow> communication_entry list \<Rightarrow> string \<Rightarrow> string \<Rightarrow> string \<Rightarrow> complaint_state
   \<Rightarrow> py_exception + (communication_entry list \<times> complaint_state)" where
  "send_agent_message now comm_log from_agent to_agent msg state =
     (case global_name ''time'' of
        Inl e \<Rightarrow> Inl e
      | Inr _ \<Rightarrow>
          (case py_len (st_entities state) of
             Inl e \<Rightarrow> Inl e
           | Inr n \<Rightarrow>
               (let communication_entry =
                      \<lparr> ce_timestamp = now, ce_from_agent = from_agent, ce_to_agent = to_agent,
                        ce_message = msg, ce_complaint_id = st_complaint_id state,
                        ce_entities_count = n,
                        ce_classification_available = truthy (st_classification state),
                        ce_risk_assessed = truthy (st_risk_assessment state),
                        ce_solution_generated = truthy (st_solution state) \<rparr>;
                    ai_message = AIMessage (from_agent @ '' -> '' @ to_agent @ '': '' @ msg)
                in Inr (comm_log @ [communication_entry],
                        state\<lparr> st_messages := st_messages state @ [ai_message] \<rparr>))))"

definition receive_agent_message ::
  "communication_entry list \<Rightarrow> string \<Rightarrow> complaint_state \<Rightarrow> complaint_state" where
  "receive_agent_message comm_log agent_name state =
     (let agent_messages =
            filter (\<lambda>entry. ce_to_agent entry = agent_name
                             \<and> ce_complaint_id entry = st_complaint_id state) comm_log
      in if agent_messages \<noteq> [] then
           state\<lparr> st_messages := st_messages state @
                    [AIMessage (agent_name @ '' received: '' @ ce_message (last agent_messages))] \<rparr>
         else state)"

text \<open>
  One node of the graph: open the session, surface the message addressed to this
  agent (every node but the first), run the agent, send the summary to the next agent.
\<close>

definition run_node ::
  "(py_exception + 'db) \<Rightarrow> (string \<Rightarrow> 'db \<Rightarrow> complaint_state \<Rightarrow> complaint_state)
   \<Rightarrow> (string \<Rightarrow> complaint_state \<Rightarrow> string) \<Rightarrow> real \<Rightarrow> string \<Rightarrow> string
   \<Rightarrow> communication_entry list \<times> complaint_state
   \<Rightarrow> py_exception + (communication_entry list \<times> complaint_state)" where
  "run_node enter_db agents summary now agent_name next_agent ls =
     (case enter_db of
        Inl e \<Rightarrow> Inl e
      | Inr db \<Rightarrow>
          (let state = (if agent_name = ''complaint_reader'' then snd ls
                        else receive_agent_message (fst ls) agent_name (snd ls));
               result_state = agents agent_name db state
           in send_agent_message now (fst ls) agent_name next_agent
                (summary agent_name result_state) result_state))"

text \<open>The edges of the compiled graph, with the receiver each node names in its message.\<close>

definition workflow_edges :: "(string \<times> string) list" where
  "workflow_edges =
     [(''complaint_reader'', ''complaint_sorter''),
      (''complaint_sorter'', ''stats_finder''),
      (''stats_finder'', ''risk_checker''),
      (''risk_checker'', ''solution_helper''),
      (''solution_helper'', ''feedback_logger''),
      (''feedback_logger'', ''workflow_complete'')]"

fun run_nodes ::
  "(py_exception + 'db) \<Rightarrow> (string \<Rightarrow> 'db \<Rightarrow> complaint_state \<Rightarrow> complaint_state)
   \<Rightarrow> (string \<Rightarrow> complaint_state \<Rightarrow> string) \<Rightarrow> real \<Rightarrow> (string \<times> string) list
   \<Rightarrow> communication_entry list \<times> complaint_state
   \<Rightarrow> py_exception + (communication_entry list \<times> complaint_state)" where
  "run_nodes enter_db agents summary now [] ls = Inr ls"
| "run_nodes enter_db agents summary now (edge # edges) ls =
     (case run_node enter_db agents summary now (fst edge) (snd edge) ls of
        Inl e \<Rightarrow> Inl e
      | Inr ls' \<Rightarrow> run_nodes enter_db agents summary now edges ls')"

record failure_result =
  f_complaint_id :: int
  f_workflow_status :: string
  f_error :: string
  f_results :: pyval
  f_processing_steps :: "processing_step list"
  f_conversation :: "message list"

datatype workflow_return = FinalState complaint_state | FailureDict failure_result

text \<open>
  \<^verbatim>\<open>process_complaint\<close>: the communication log is cleared, the graph runs from the
  initial state, and the final state is returned (the result summary the source
  compiles is not the value it returns). An exception of the graph run gives the
  failure dictionary.
\<close>

definition process_complaint ::
  "(py_exception + 'db) \<Rightarrow> (string \<Rightarrow> 'db \<Rightarrow> complaint_state \<Rightarrow> complaint_state)
   \<Rightarrow> (string \<Rightarrow> complaint_state \<Rightarrow> string) \<Rightarrow> real
   \<Rightarrow> int \<Rightarrow> string \<Rightarrow> string \<Rightarrow> string \<Rightarrow> workflow_return" where
  "process_complaint enter_db agents summary now cid narrative tid uid =
     (case run_nodes enter_db agents summary now workflow_edges
             ([], initial_state cid narrative tid uid) of
        Inr (comm_log, final_state) \<Rightarrow> FinalState final_state
      | Inl e \<Rightarrow>
          FailureDict \<lparr> f_complaint_id = cid, f_workflow_status = ''failed'',
                        f_error = str_exception e, f_results = JDict [],
                        f_processing_steps = [], f_conversation = [] \<rparr>)"

text \<open>What a caller reads from the returned value.\<close>

fun result_processing_steps :: "workflow_return \<Rightarrow> processing_step list" where
  "result_processing_steps (FinalState s) = st_processing_steps s"
| "result_processing_steps (FailureDict f) = f_processing_steps f"

text \<open>The \<^verbatim>\<open>errors\<close> list, None when the returned dictionary has no such key.\<close>

fun result_errors :: "workflow_return \<Rightarrow> string list option" where
  "result_errors (FinalState s) = Some (st_errors s)"
| "result_errors (FailureDict f) = None"

text \<open>
  \<^verbatim>\<open>workflow_result.get('results', {})\<close>: the final state has the keys of
  \<open>state_keys\<close>, and \<^verbatim>\<open>results\<close> is not one of them.
\<close>

fun result_get_results :: "workflow_return \<Rightarrow> pyval" where
  "result_get_results (FinalState s) =
     (if ''results'' \<in> set state_keys then JNull else JDict [])"
| "result_get_results (FailureDict f) = f_results f"

section \<open>Complaint API: analysis endpoint\<close>

text \<open>
  \<^verbatim>\<open>get_complaint_analysis\<close> (complaints.py). The endpoint loads the complaint with
  \<^verbatim>\<open>select(ComplaintRaw).where(...)\<close>. The statement names no loader option and the
  model classes declare \<^verbatim>\<open>labels\<close> and \<^verbatim>\<open>risk_scores\<close> as relationships with the
  default lazy loading, so the object comes back with both relationships not loaded.
  The session is an \<^verbatim>\<open>AsyncSession\<close>: reading a relationship that is not loaded raises
  (the implicit load cannot run there). The endpoint's handler turns every exception
  other than its own 404 into the 500 response. The workflow is the parameter \<open>process\<close>.
\<close>

record complaint_label =
  l_id :: int
  l_complaint_id :: int
  l_product :: "string option"
  l_issue :: "string option"
  l_company :: "string option"

record complaint_tables =
  t_complaints :: "complaint_raw list"
  t_labels :: "complaint_label list"
  t_risk_scores :: "risk_score_row list"

datatype 'a relationship = NotLoaded | Loaded "'a list"

fun read_relationship :: "'a relationship \<Rightarrow> py_exception + 'a list" where
  "read_relationship NotLoaded = Inl MissingGreenlet"
| "read_relationship (Loaded rows) = Inr rows"

record complaint_object =
  o_row :: complaint_raw
  o_labels :: "complaint_label relationship"
  o_risk_scores :: "risk_score_row relationship"

definition select_complaint_raw :: "complaint_tables \<Rightarrow> int \<Rightarrow> string \<Rightarrow> complaint_object list" where
  "select_complaint_raw db cid tid =
     map (\<lambda>row. \<lparr> o_row = row, o_labels = NotLoaded, o_risk_scores = NotLoaded \<rparr>)
       (filter (\<lambda>c. c_id c = cid \<and> c_tenant_id c = tid) (t_complaints db))"

record complaint_analysis =
  a_complaint_id :: int
  a_entities :: pyval
  a_classification :: pyval
  a_risk_assessment :: pyval
  a_similar_complaints :: pyval
  a_benchmarks :: pyval

text \<open>
  The field types of \<^verbatim>\<open>ComplaintAnalysis\<close> (schemas.py): three dictionaries with any
  values, a classification dictionary whose values are strings, and a list of
  dictionaries. Constructing the response with anything else raises.
\<close>

fun is_dict :: "pyval \<Rightarrow> bool" where
  "is_dict (JDict kvs) = True"
| "is_dict v = False"

fun is_str :: "pyval \<Rightarrow> bool" where
  "is_str (JStr s) = True"
| "is_str v = False"

fun is_str_dict :: "pyval \<Rightarrow> bool" where
  "is_str_dict (JDict kvs) = list_all (\<lambda>kv. is_str (snd kv)) kvs"
| "is_str_dict v = False"

fun is_dict_list :: "pyval \<Rightarrow> bool" where
  "is_dict_list (JList xs) = list_all is_dict xs"
| "is_dict_list v = False"

definition ComplaintAnalysis :: "complaint_analysis \<Rightarrow> py_exception + complaint_analysis" where
  "ComplaintAnalysis a =
     (if is_dict (a_entities a) \<and> is_str_dict (a_classification a)
         \<and> is_dict (a_risk_assessment a) \<and> is_dict_list (a_similar_complaints a)
         \<and> is_dict (a_benchmarks a)
      then Inr a
      else Inl (ValidationError ''validation error for ComplaintAnalysis''))"

text \<open>\<^verbatim>\<open>d.get(key, default)\<close> on a JSON value: AttributeError unless it is a dictionary.\<close>

fun pyval_get :: "pyval \<Rightarrow> string \<Rightarrow> pyval \<Rightarrow> py_exception + pyval" where
  "pyval_get (JDict kvs) k dflt = Inr (case map_of kvs k of None \<Rightarrow> dflt | Some v \<Rightarrow> v)"
| "pyval_get v k dflt = Inl (AttributeError ''object has no attribute get'')"

definition opt_str :: "string option \<Rightarrow> pyval" where
  "opt_str x = (case x of None \<Rightarrow> JNull | Some s \<Rightarrow> JStr s)"

definition analysis_of_workflow :: "int \<Rightarrow> workflow_return \<Rightarrow> py_exception + complaint_analysis" where
  "analysis_of_workflow cid workflow_result =
     (case pyval_get (result_get_results workflow_result) ''entities'' (JDict []) of
        Inl e \<Rightarrow> Inl e
      | Inr ents \<Rightarrow>
     (case pyval_get (result_get_results workflow_result) ''classification'' (JDict []) of
        Inl e \<Rightarrow> Inl e
      | Inr cls \<Rightarrow>
     (case pyval_get (result_get_results workflow_result) ''risk_assessment'' (JDict []) of
        Inl e \<Rightarrow> Inl e
      | Inr risk \<Rightarrow>
     (case pyval_get (result_get_results workflow_result) ''similar_complaints'' (JList []) of
        Inl e \<Rightarrow> Inl e
      | Inr similar \<Rightarrow>
     (case pyval_get (result_get_results workflow_result) ''benchmarks'' (JDict []) of
        Inl e \<Rightarrow> Inl e
      | Inr bench \<Rightarrow>
          ComplaintAnalysis
            \<lparr> a_complaint_id = cid, a_entities = ents, a_classification = cls,
              a_risk_assessment = risk, a_similar_complaints = similar,
              a_benchmarks = bench \<rparr>)))))"

definition existing_analysis ::
  "int \<Rightarrow> complaint_label \<Rightarrow> risk_score_row \<Rightarrow> py_exception + complaint_analysis" where
  "existing_analysis cid latest_label latest_risk =
     ComplaintAnalysis
       \<lparr> a_complaint_id = cid,
         a_entities = JDict [(''product'', opt_str (l_product latest_label)),
                             (''issue'', opt_str (l_issue latest_label)),
                             (''company'', opt_str (l_company latest_label))],
         a_classification = JDict [(''product_category'', opt_str (l_product latest_label)),
                                   (''issue_category'', opt_str (l_issue latest_label))],
         a_risk_assessment = JDict [(''risk_score'', JNum (r_risk latest_risk)),
                                    (''risk_category'', JStr (r_category latest_risk)),
                                    (''factors'', r_factors latest_risk)],
         a_similar_complaints = JList [],
         a_benchmarks = JDict [] \<rparr>"

text \<open>
  The body of the endpoint for the complaint it found. The test
  \<^verbatim>\<open>not complaint.labels or not complaint.risk_scores\<close> reads the labels first and the
  risk scores only when there are labels.
\<close>

definition analysis_of_object ::
  "(int \<Rightarrow> string \<Rightarrow> string \<Rightarrow> string \<Rightarrow> workflow_return) \<Rightarrow> user \<Rightarrow> int \<Rightarrow> complaint_object
   \<Rightarrow> py_exception + complaint_analysis" where
  "analysis_of_object process current_user cid complaint =
     (case read_relationship (o_labels complaint) of
        Inl e \<Rightarrow> Inl e
      | Inr labels \<Rightarrow>
          if labels = [] then
            analysis_of_workflow cid
              (process cid (c_narrative (o_row complaint)) (tenant_id current_user)
                 (user_id current_user))
          else
            (case read_relationship (o_risk_scores complaint) of
               Inl e \<Rightarrow> Inl e
             | Inr risk_scores \<Rightarrow>
                 if risk_scores = [] then
                   analysis_of_workflow cid
                     (process cid (c_narrative (o_row complaint)) (tenant_id current_user)
                        (user_id current_user))
                 else existing_analysis cid (last labels) (last risk_scores)))"

definition get_complaint_analysis ::
  "(int \<Rightarrow> string \<Rightarrow> string \<Rightarrow> string \<Rightarrow> workflow_return) \<Rightarrow> complaint_tables \<Rightarrow> user \<Rightarrow> int
   \<Rightarrow> http_exception + complaint_analysis" where
  "get_complaint_analysis process db current_user cid =
     (case scalar_one_or_none (select_complaint_raw db cid (tenant_id current_user)) of
        Inl e \<Rightarrow> Inl \<lparr> status_code = 500, detail = ''Failed to retrieve complaint analysis'' \<rparr>
      | Inr None \<Rightarrow> Inl \<lparr> status_code = 404, detail = ''Complaint not found'' \<rparr>
      | Inr (Some complaint) \<Rightarrow>
          (case analysis_of_object process current_user cid complaint of
             Inl e \<Rightarrow> Inl \<lparr> status_code = 500,
                             detail = ''Failed to retrieve complaint analysis'' \<rparr>
           | Inr analysis \<Rightarrow> Inr analysis))"

text \<open>
  A complaint without label and risk rows, and a workflow run that ends with every
  field of the analysis populated.
\<close>

definition unlabelled_tables :: complaint_tables where
  "unlabelled_tables =
     \<lparr> t_complaints = scored_twice_complaints, t_labels = [], t_risk_scores = [] \<rparr>"

definition populated_state :: complaint_state where
  "populated_state =
     (initial_state 1 ''Card charged twice'' ''t-1'' ''u-1'')
       \<lparr> st_entities := JDict [(''product'', JStr ''credit_card'')],
         st_classification := JDict [(''issue_category'', JStr ''billing_dispute'')],
         st_similar_complaints := JList [JDict [(''id'', JNum 7)]],
         st_benchmarks := JDict [(''industry_avg'', JNum 0.4)],
         st_risk_assessment := JDict [(''risk_score'', JNum 0.4)] \<rparr>"

definition populated_workflow :: "int \<Rightarrow> string \<Rightarrow> string \<Rightarrow> string \<Rightarrow> workflow_return" where
  "populated_workflow cid narrative tid uid = FinalState populated_state"

section \<open>Properties of the priority score\<close>

lemma digit_not_space: "is_digit c \<Longrightarrow> \<not> is_space c"
  by (auto simp: is_digit_def is_space_def Let_def)

lemma digitpart_digits: "list_all is_digit ds \<Longrightarrow> digitpart ds = (ds, [])"
proof (induction ds rule: digitpart.induct)
  case 1
  then show ?case by simp
next
  case (2 c cs)
  then show ?case
    by (cases cs; cases "tl cs") (auto simp: is_digit_def Let_def split: list.splits)
qed

lemma strip_digits:
  assumes "ds \<noteq> []" and "list_all is_digit ds"
  shows "strip ds = ds"
proof -
  have h: "\<not> is_space (hd ds)" using assms by (cases ds) (auto simp: digit_not_space)
  then have d: "dropWhile is_space ds = ds" using assms(1) by (cases ds) auto
  have "\<not> is_space (last ds)"
    using assms by (auto simp: list_all_iff digit_not_space)
  then have "dropWhile is_space (rev ds) = rev ds"
    using assms(1) by (cases "rev ds") (auto simp: last_rev hd_rev [symmetric] dest: arg_cong [where f = hd])
  then show ?thesis by (simp add: strip_def d)
qed


lemma lower_digit: "is_digit c \<Longrightarrow> lower_char c = c"
  by (auto simp: is_digit_def lower_char_def Let_def)

lemma py_float_digits:
  assumes "ds \<noteq> []" and "list_all is_digit ds"
  shows "py_float ds = Some (Fin (real (decimal ds)))"
proof -
  obtain c cs where ds: "ds = c # cs" using assms(1) by (cases ds) auto
  have c: "is_digit c" using assms(2) ds by simp
  have st: "strip (c # cs) = c # cs" using strip_digits [OF assms] ds by simp
  have sign: "c \<noteq> CHR ''-''" "c \<noteq> CHR ''+''"
    using c by (auto simp: is_digit_def Let_def)
  have low: "lower_char c \<noteq> CHR ''i''" "lower_char c \<noteq> CHR ''n''"
    using c by (auto simp: lower_digit is_digit_def Let_def)
  have num: "parse_number (c # cs) = Some (real (decimal (c # cs)))"
    using digitpart_digits [OF assms(2)] ds
    by (simp add: parse_number_def exponent_def scale10_def)
  show ?thesis
    unfolding py_float_def st ds
    by (simp add: Let_def sign low num)
qed

lemma amount_float_dollars:
  assumes "remove_char (CHR '','') (remove_char (CHR ''$'') s) = ds"
      and "ds \<noteq> []" and "list_all is_digit ds"
  shows "amount_float (JStr s) = Some (Fin (real (decimal ds)))"
  using py_float_digits [OF assms(2,3)] assms(1) by simp

lemma float_gt_Fin_tier:
  "(if float_gt (Fin a) 10000 then score + 0.3
    else if float_gt (Fin a) 1000 then score + 0.2
    else if float_gt (Fin a) 100 then score + 0.1 else score) = score + spec_amount_tier a"
  by (simp add: spec_amount_tier_def)

lemma table_get_sorter:
  "table_get sorter_urgency_weights u 0.2 =
     (if hashable u then Inr (spec_urgency_weight u) else Inl (TypeError ''unhashable type''))"
  by (cases u) (auto simp: table_get_def sorter_urgency_weights_def spec_urgency_weight_def)

lemma priority_amount_step_eq:
  "priority_amount_step entities score = score + spec_amount_bonus (entity_amount entities)"
  by (auto simp: priority_amount_step_def entity_amount_def spec_amount_bonus_def dict_get_def
      split: option.splits)

lemma issue_bonus_eq:
  "(if in_strings (dict_get classification ''issue_category'') high_priority_issues
    then score + 0.2 else score) = score + spec_issue_bonus classification"
  by (auto simp: in_strings_def dict_get_def high_priority_issues_def spec_issue_bonus_def
      split: option.splits pyval.splits)

lemma priority_score_closed:
  "calculate_priority_score c e =
       (if hashable (urgency_of c)
        then Inr (min (0.3 + spec_urgency_weight (urgency_of c)
                        + spec_amount_bonus (entity_amount e)
                        + spec_issue_bonus c) 1.0)
        else Inl (TypeError ''unhashable type''))"
  unfolding calculate_priority_score_def Let_def priority_amount_step_eq issue_bonus_eq
    dict_get_default_def urgency_of_def [symmetric] table_get_sorter
  by simp

lemma amount_bonus_number:
  "spec_amount_bonus (entity_amount (e(''amount'' \<mapsto> JNum a))) = spec_amount_tier a"
  by (simp add: entity_amount_def spec_amount_bonus_def spec_amount_tier_def)

lemma amount_bonus_dollars:
  assumes "remove_char (CHR '','') (remove_char (CHR ''$'') s) = ds"
      and "ds \<noteq> []" and "list_all is_digit ds"
  shows "spec_amount_bonus (entity_amount (e(''amount'' \<mapsto> JStr s))) =
           spec_amount_tier (real (decimal ds))"
proof -
  have "s \<noteq> []" using assms(1,2) by (auto simp: remove_char_def)
  then show ?thesis
    using amount_float_dollars [OF assms]
    by (simp add: entity_amount_def spec_amount_bonus_def spec_amount_tier_def)
qed

lemma dollars_15000:
  "remove_char (CHR '','') (remove_char (CHR ''$'') ''$15,000'') = ''15000''"
  "remove_char (CHR '','') (remove_char (CHR ''$'') ''$1,500'') = ''1500''"
  "remove_char (CHR '','') (remove_char (CHR ''$'') ''$150'') = ''150''"
  "remove_char (CHR '','') (remove_char (CHR ''$'') ''$50'') = ''50''"
  by (simp_all add: remove_char_def)

lemma decimal_values:
  "decimal ''15000'' = 15000" "decimal ''1500'' = 1500" "decimal ''150'' = 150" "decimal ''50'' = 50"
  by (simp_all add: decimal_def digit_val_def)

lemma digits_ok:
  "list_all is_digit ''15000''" "list_all is_digit ''1500''" "list_all is_digit ''150''"
  "list_all is_digit ''50''"
  by (simp_all add: is_digit_def)

lemma low_other_terms:
  "hashable (urgency_of low_other)" "spec_urgency_weight (urgency_of low_other) = 0"
  "spec_issue_bonus low_other = 0"
  by (simp_all add: low_other_def urgency_of_def spec_urgency_weight_def spec_issue_bonus_def)

lemma priority_pins_amount:
  "calculate_priority_score low_other [''amount'' \<mapsto> JStr ''$15,000''] = Inr 0.6"
  "calculate_priority_score low_other [''amount'' \<mapsto> JStr ''$1,500''] = Inr 0.5"
  "calculate_priority_score low_other [''amount'' \<mapsto> JStr ''$150''] = Inr 0.4"
  "calculate_priority_score low_other [''amount'' \<mapsto> JStr ''$50''] = Inr 0.3"
  "calculate_priority_score low_other Map.empty = Inr 0.3"
proof -
  have b: "spec_amount_bonus (entity_amount [''amount'' \<mapsto> JStr ''$15,000'']) = 0.3"
    "spec_amount_bonus (entity_amount [''amount'' \<mapsto> JStr ''$1,500'']) = 0.2"
    "spec_amount_bonus (entity_amount [''amount'' \<mapsto> JStr ''$150'']) = 0.1"
    "spec_amount_bonus (entity_amount [''amount'' \<mapsto> JStr ''$50'']) = 0"
    using amount_bonus_dollars [OF dollars_15000(1) _ digits_ok(1), of Map.empty]
      amount_bonus_dollars [OF dollars_15000(2) _ digits_ok(2), of Map.empty]
      amount_bonus_dollars [OF dollars_15000(3) _ digits_ok(3), of Map.empty]
      amount_bonus_dollars [OF dollars_15000(4) _ digits_ok(4), of Map.empty]
    by (simp_all add: decimal_values spec_amount_tier_def)
  have n: "spec_amount_bonus (entity_amount Map.empty) = 0"
    by (simp add: entity_amount_def spec_amount_bonus_def)
  show "calculate_priority_score low_other [''amount'' \<mapsto> JStr ''$15,000''] = Inr 0.6"
    "calculate_priority_score low_other [''amount'' \<mapsto> JStr ''$1,500''] = Inr 0.5"
    "calculate_priority_score low_other [''amount'' \<mapsto> JStr ''$150''] = Inr 0.4"
    "calculate_priority_score low_other [''amount'' \<mapsto> JStr ''$50''] = Inr 0.3"
    "calculate_priority_score low_other Map.empty = Inr 0.3"
    by (simp_all add: priority_score_closed b n low_other_terms)
qed

lemma priority_pins_tables:
  "calculate_priority_score Map.empty Map.empty = Inr 0.5"
  "calculate_priority_score [''urgency_level'' \<mapsto> JStr ''medium''] Map.empty = Inr 0.5"
  "calculate_priority_score [''urgency_level'' \<mapsto> JStr ''high''] Map.empty = Inr 0.7"
  "calculate_priority_score [''urgency_level'' \<mapsto> JStr ''critical''] Map.empty = Inr 0.9"
  "calculate_priority_score (low_other(''issue_category'' \<mapsto> JStr ''fraud'')) Map.empty = Inr 0.5"
  "calculate_priority_score (low_other(''issue_category'' \<mapsto> JStr ''unauthorized_charges''))
     Map.empty = Inr 0.5"
  "calculate_priority_score (low_other(''issue_category'' \<mapsto> JStr ''discrimination''))
     Map.empty = Inr 0.5"
proof -
  have n: "spec_amount_bonus (entity_amount Map.empty) = 0"
    by (simp add: entity_amount_def spec_amount_bonus_def)
  show "calculate_priority_score Map.empty Map.empty = Inr 0.5"
  "calculate_priority_score [''urgency_level'' \<mapsto> JStr ''medium''] Map.empty = Inr 0.5"
  "calculate_priority_score [''urgency_level'' \<mapsto> JStr ''high''] Map.empty = Inr 0.7"
  "calculate_priority_score [''urgency_level'' \<mapsto> JStr ''critical''] Map.empty = Inr 0.9"
  "calculate_priority_score (low_other(''issue_category'' \<mapsto> JStr ''fraud'')) Map.empty = Inr 0.5"
  "calculate_priority_score (low_other(''issue_category'' \<mapsto> JStr ''unauthorized_charges''))
     Map.empty = Inr 0.5"
  "calculate_priority_score (low_other(''issue_category'' \<mapsto> JStr ''discrimination''))
     Map.empty = Inr 0.5"
    unfolding priority_score_closed n
    by (simp_all add: low_other_def urgency_of_def spec_urgency_weight_def spec_issue_bonus_def)
qed


lemma amount_bonus_absent:
  "entities ''amount'' = None \<Longrightarrow> spec_amount_bonus (entity_amount entities) = 0"
  by (simp add: entity_amount_def spec_amount_bonus_def)

text \<open>
  Claim C8. A classification with urgency level critical and issue category fraud,
  with the amount entity "$15,000", has priority score min(0.3 + 0.6 + 0.3 + 0.2, 1.0) = 1.0.
  In general the score is the base 0.3 plus the urgency weight, the amount tier bonus
  and the high priority issue bonus, capped at 1.0. Below the cap each term shows: at
  urgency low and issue other the amounts "$15,000", "$1,500", "$150" and "$50" give
  0.6, 0.5, 0.4 and 0.3, and no amount gives 0.3; without amount the urgency levels
  give 0.3, 0.5, 0.7 and 0.9 and each high priority issue adds 0.2. For an amount that
  is a number, and for an amount string that is a run of digits once dollar signs and
  commas are removed, the bonus is the tier of that number; without an amount entity
  there is no bonus. The only other outcome is the TypeError of a dictionary lookup
  with an unhashable urgency value.
\<close>

theorem priority_score_formula:
  "calculate_priority_score
      [''urgency_level'' \<mapsto> JStr ''critical'', ''issue_category'' \<mapsto> JStr ''fraud'']
      [''amount'' \<mapsto> JStr ''$15,000''] = Inr (min (0.3 + 0.6 + 0.3 + 0.2) 1.0)
   \<and> min (0.3 + 0.6 + 0.3 + 0.2) (1.0 :: real) = 1.0
   \<and> calculate_priority_score low_other [''amount'' \<mapsto> JStr ''$15,000''] = Inr 0.6
   \<and> calculate_priority_score low_other [''amount'' \<mapsto> JStr ''$1,500''] = Inr 0.5
   \<and> calculate_priority_score low_other [''amount'' \<mapsto> JStr ''$150''] = Inr 0.4
   \<and> calculate_priority_score low_other [''amount'' \<mapsto> JStr ''$50''] = Inr 0.3
   \<and> calculate_priority_score low_other Map.empty = Inr 0.3
   \<and> calculate_priority_score Map.empty Map.empty = Inr 0.5
   \<and> calculate_priority_score [''urgency_level'' \<mapsto> JStr ''medium''] Map.empty = Inr 0.5
   \<and> calculate_priority_score [''urgency_level'' \<mapsto> JStr ''high''] Map.empty = Inr 0.7
   \<and> calculate_priority_score [''urgency_level'' \<mapsto> JStr ''critical''] Map.empty = Inr 0.9
   \<and> calculate_priority_score (low_other(''issue_category'' \<mapsto> JStr ''fraud'')) Map.empty = Inr 0.5
   \<and> calculate_priority_score (low_other(''issue_category'' \<mapsto> JStr ''unauthorized_charges''))
        Map.empty = Inr 0.5
   \<and> calculate_priority_score (low_other(''issue_category'' \<mapsto> JStr ''discrimination''))
        Map.empty = Inr 0.5
   \<and> calculate_priority_score classification (entities(''amount'' \<mapsto> JNum a)) =
       (if hashable (urgency_of classification)
        then Inr (min (0.3 + spec_urgency_weight (urgency_of classification)
                        + spec_amount_tier a
                        + spec_issue_bonus classification) 1.0)
        else Inl (TypeError ''unhashable type''))
   \<and> (remove_char (CHR '','') (remove_char (CHR ''$'') s) = ds \<and> ds \<noteq> [] \<and> list_all is_digit ds
        \<longrightarrow> calculate_priority_score classification (entities(''amount'' \<mapsto> JStr s)) =
             (if hashable (urgency_of classification)
              then Inr (min (0.3 + spec_urgency_weight (urgency_of classification)
                              + spec_amount_tier (real (decimal ds))
                              + spec_issue_bonus classification) 1.0)
              else Inl (TypeError ''unhashable type'')))
   \<and> (entities ''amount'' = None
        \<longrightarrow> calculate_priority_score classification entities =
             (if hashable (urgency_of classification)
              then Inr (min (0.3 + spec_urgency_weight (urgency_of classification)
                              + spec_issue_bonus classification) 1.0)
              else Inl (TypeError ''unhashable type'')))
   \<and> calculate_priority_score classification entities =
       (if hashable (urgency_of classification)
        then Inr (min (0.3 + spec_urgency_weight (urgency_of classification)
                        + spec_amount_bonus (entity_amount entities)
                        + spec_issue_bonus classification) 1.0)
        else Inl (TypeError ''unhashable type''))"
proof -
  have amount: "spec_amount_bonus (entity_amount [''amount'' \<mapsto> JStr ''$15,000'']) = 0.3"
    using amount_bonus_dollars [OF dollars_15000(1) _ digits_ok(1), of Map.empty]
    by (simp add: decimal_values spec_amount_tier_def)
  have concrete: "calculate_priority_score
      [''urgency_level'' \<mapsto> JStr ''critical'', ''issue_category'' \<mapsto> JStr ''fraud'']
      [''amount'' \<mapsto> JStr ''$15,000''] = Inr (min (0.3 + 0.6 + 0.3 + 0.2) 1.0)"
    unfolding priority_score_closed amount
    by (simp add: urgency_of_def spec_urgency_weight_def spec_issue_bonus_def)
  have number: "calculate_priority_score classification (entities(''amount'' \<mapsto> JNum a)) =
       (if hashable (urgency_of classification)
        then Inr (min (0.3 + spec_urgency_weight (urgency_of classification)
                        + spec_amount_tier a
                        + spec_issue_bonus classification) 1.0)
        else Inl (TypeError ''unhashable type''))"
    unfolding priority_score_closed amount_bonus_number ..
  have dollars: "remove_char (CHR '','') (remove_char (CHR ''$'') s) = ds \<and> ds \<noteq> [] \<and> list_all is_digit ds
        \<longrightarrow> calculate_priority_score classification (entities(''amount'' \<mapsto> JStr s)) =
             (if hashable (urgency_of classification)
              then Inr (min (0.3 + spec_urgency_weight (urgency_of classification)
                              + spec_amount_tier (real (decimal ds))
                              + spec_issue_bonus classification) 1.0)
              else Inl (TypeError ''unhashable type''))"
  proof
    assume h: "remove_char (CHR '','') (remove_char (CHR ''$'') s) = ds \<and> ds \<noteq> [] \<and> list_all is_digit ds"
    then have "spec_amount_bonus (entity_amount (entities(''amount'' \<mapsto> JStr s))) =
           spec_amount_tier (real (decimal ds))"
      using amount_bonus_dollars [of s ds entities] by blast
    then show "calculate_priority_score classification (entities(''amount'' \<mapsto> JStr s)) =
             (if hashable (urgency_of classification)
              then Inr (min (0.3 + spec_urgency_weight (urgency_of classification)
                              + spec_amount_tier (real (decimal ds))
                              + spec_issue_bonus classification) 1.0)
              else Inl (TypeError ''unhashable type''))"
      unfolding priority_score_closed by simp
  qed
  have absent: "entities ''amount'' = None
        \<longrightarrow> calculate_priority_score classification entities =
             (if hashable (urgency_of classification)
              then Inr (min (0.3 + spec_urgency_weight (urgency_of classification)
                              + spec_issue_bonus classification) 1.0)
              else Inl (TypeError ''unhashable type''))"
    unfolding priority_score_closed by (simp add: amount_bonus_absent)
  have cap: "min (0.3 + 0.6 + 0.3 + 0.2) (1.0 :: real) = 1.0" by simp
  show ?thesis
    by (intro conjI concrete cap priority_pins_amount priority_pins_tables number dollars absent
        priority_score_closed)
qed

text \<open>The amount "$15,000" at urgency low and issue other, and the same without amount.\<close>

theorem priority_score_witness:
  "remove_char (CHR '','') (remove_char (CHR ''$'') ''$15,000'') = ''15000''
   \<and> ''15000'' \<noteq> [] \<and> list_all is_digit ''15000''
   \<and> real (decimal ''15000'') = 15000 \<and> spec_amount_tier 15000 = 0.3
   \<and> calculate_priority_score low_other (Map.empty(''amount'' \<mapsto> JStr ''$15,000'')) =
       Inr (min (0.3 + 0 + 0.3 + 0) 1.0)
   \<and> (Map.empty :: pydict) ''amount'' = None
   \<and> calculate_priority_score low_other Map.empty = Inr (min (0.3 + 0 + 0) 1.0)"
  using priority_score_formula
          [where s = "''$15,000''" and ds = "''15000''" and classification = low_other
             and entities = Map.empty]
        dollars_15000(1) digits_ok(1) decimal_values(1) low_other_terms
  by (simp add: spec_amount_tier_def)

section \<open>Properties of the risk model\<close>

lemma if_incr: "(if b then x + a else x) = x + (if b then a else (0::real))"
  by simp

lemma table_get_risk:
  "table_get risk_urgency_weights (JStr u) 0.1 =
     Inr (if u = ''low'' then 0 else if u = ''medium'' then 0.1 else if u = ''high'' then 0.2
          else if u = ''critical'' then 0.3 else 0.1)"
  by (simp add: table_get_def risk_urgency_weights_def)

lemma rule_based_risk_closed:
  "table_get risk_urgency_weights (dict_get_default c ''urgency_level'' (JStr ''medium'')) 0.1 = Inr w
   \<Longrightarrow> calculate_rule_based_risk f s c = Inr (min (0.3 + w + risk_other_increments f s c) 1)"
proof -
  have one: "(1.0::real) = 1" by simp
  assume "table_get risk_urgency_weights (dict_get_default c ''urgency_level'' (JStr ''medium'')) 0.1 = Inr w"
  then show ?thesis
    unfolding calculate_rule_based_risk_def Let_def risk_other_increments_def if_incr one
    by (simp only: sum.case add.assoc)
qed

lemma risk_other_increments_upd:
  "risk_other_increments f s (c(''urgency_level'' \<mapsto> v)) = risk_other_increments f s c"
  unfolding risk_other_increments_def dict_get_def by simp

lemma risk_at_closed:
  "risk_at f s c u =
     Inr (min (0.3 + (if u = ''low'' then 0 else if u = ''medium'' then 0.1
                      else if u = ''high'' then 0.2 else if u = ''critical'' then 0.3 else 0.1)
               + risk_other_increments f s c) 1)"
proof -
  have "table_get risk_urgency_weights
          (dict_get_default (c(''urgency_level'' \<mapsto> JStr u)) ''urgency_level'' (JStr ''medium'')) 0.1
        = Inr (if u = ''low'' then 0 else if u = ''medium'' then 0.1 else if u = ''high'' then 0.2
          else if u = ''critical'' then 0.3 else 0.1)"
    unfolding dict_get_default_def by (simp only: fun_upd_same option.case table_get_risk)
  from rule_based_risk_closed [OF this, of f s]
  show ?thesis unfolding risk_at_def risk_other_increments_upd .
qed

lemma risk_other_increments_bounds:
  "0 \<le> risk_other_increments f s c" "risk_other_increments f s c \<le> 0.75"
  by (simp_all add: risk_other_increments_def)

lemma table_get_risk_bounds:
  assumes "table_get risk_urgency_weights u 0.1 = Inr w"
  shows "0 \<le> w \<and> w \<le> 0.3"
  using assms
  by (cases u) (auto simp: table_get_def risk_urgency_weights_def split: if_splits)

lemma rule_based_risk_range:
  assumes "calculate_rule_based_risk f s c = Inr r"
  shows "0.3 \<le> r \<and> r \<le> 1"
proof -
  obtain w where w: "table_get risk_urgency_weights
                       (dict_get_default c ''urgency_level'' (JStr ''medium'')) 0.1 = Inr w"
    using assms unfolding calculate_rule_based_risk_def by (auto split: sum.splits)
  from rule_based_risk_closed [OF w, of f s] assms
  have r: "r = min (0.3 + w + risk_other_increments f s c) 1" by simp
  from table_get_risk_bounds [OF w] risk_other_increments_bounds(1) [of f s c]
  show ?thesis unfolding r by simp
qed

text \<open>
  Claim C4 as stated fails where the cap applies: with negative sentiment, angry emotion,
  a fraud issue and an amount mentioned, the scores at urgency high and at urgency
  critical are both 1.0, so critical is not strictly above high.
\<close>

theorem rule_based_risk_not_strict_counterexample:
  "risk_at saturating_features saturating_sentiment saturating_classification ''high'' = Inr 1
   \<and> risk_at saturating_features saturating_sentiment saturating_classification ''critical'' = Inr 1"
proof -
  have o: "risk_other_increments saturating_features saturating_sentiment saturating_classification
             = 0.65"
    by (simp add: risk_other_increments_def dict_get_def in_strings_def feature_get_def
        saturating_features_def saturating_sentiment_def saturating_classification_def
        high_risk_issues_def)
  show ?thesis by (simp add: risk_at_closed o)
qed

text \<open>
  Claim C4, amended. With every other input fixed, the rule based risk score exists at
  each of the four urgency levels, is non-decreasing from low to medium to high to
  critical, is strictly increasing from a level to the next whenever the score at the
  lower level is below the cap 1.0, and lies between 0.3 and 1.0. For every input,
  whatever the urgency value, a returned score lies in [0,1].
\<close>

theorem rule_based_risk_monotone_in_urgency:
  "(\<exists>l m h k.
      risk_at f s c ''low'' = Inr l \<and> risk_at f s c ''medium'' = Inr m
    \<and> risk_at f s c ''high'' = Inr h \<and> risk_at f s c ''critical'' = Inr k
    \<and> l \<le> m \<and> m \<le> h \<and> h \<le> k
    \<and> (l < 1 \<longrightarrow> l < m) \<and> (m < 1 \<longrightarrow> m < h) \<and> (h < 1 \<longrightarrow> h < k)
    \<and> 0.3 \<le> l \<and> k \<le> 1)
   \<and> (\<forall>r. calculate_rule_based_risk f s c = Inr r \<longrightarrow> 0 \<le> r \<and> r \<le> 1)"
proof -
  define d where "d = risk_other_increments f s c"
  have d: "0 \<le> d" using risk_other_increments_bounds(1) [of f s c] by (simp add: d_def)
  have l: "risk_at f s c ''low'' = Inr (min (0.3 + d) 1)"
    by (simp add: risk_at_closed d_def)
  have m: "risk_at f s c ''medium'' = Inr (min (0.4 + d) 1)"
    by (simp add: risk_at_closed d_def)
  have h: "risk_at f s c ''high'' = Inr (min (0.5 + d) 1)"
    by (simp add: risk_at_closed d_def)
  have k: "risk_at f s c ''critical'' = Inr (min (0.6 + d) 1)"
    by (simp add: risk_at_closed d_def)
  have ord: "min (0.3 + d) 1 \<le> min (0.4 + d) 1" "min (0.4 + d) 1 \<le> min (0.5 + d) 1"
    "min (0.5 + d) 1 \<le> min (0.6 + d) 1" by simp_all
  have strict: "min (0.3 + d) 1 < 1 \<longrightarrow> min (0.3 + d) 1 < min (0.4 + d) 1"
    "min (0.4 + d) 1 < 1 \<longrightarrow> min (0.4 + d) 1 < min (0.5 + d) 1"
    "min (0.5 + d) 1 < 1 \<longrightarrow> min (0.5 + d) 1 < min (0.6 + d) 1"
    by (simp_all add: min_def)
  have range: "0.3 \<le> min (0.3 + d) 1" "min (0.6 + d) 1 \<le> 1" using d by simp_all
  have chain: "\<exists>l m h k.
      risk_at f s c ''low'' = Inr l \<and> risk_at f s c ''medium'' = Inr m
    \<and> risk_at f s c ''high'' = Inr h \<and> risk_at f s c ''critical'' = Inr k
    \<and> l \<le> m \<and> m \<le> h \<and> h \<le> k
    \<and> (l < 1 \<longrightarrow> l < m) \<and> (m < 1 \<longrightarrow> m < h) \<and> (h < 1 \<longrightarrow> h < k)
    \<and> 0.3 \<le> l \<and> k \<le> 1"
    using l m h k ord strict range by blast
  have every: "\<forall>r. calculate_rule_based_risk f s c = Inr r \<longrightarrow> 0 \<le> r \<and> r \<le> 1"
    using rule_based_risk_range [of f s c] by fastforce
  show ?thesis using chain every by (rule conjI)
qed

text \<open>With no increment besides urgency the four scores are 0.3, 0.4, 0.5 and 0.6.\<close>

theorem rule_based_risk_monotone_witness:
  "risk_at [] Map.empty Map.empty ''low'' = Inr 0.3
   \<and> risk_at [] Map.empty Map.empty ''medium'' = Inr 0.4
   \<and> risk_at [] Map.empty Map.empty ''high'' = Inr 0.5
   \<and> risk_at [] Map.empty Map.empty ''critical'' = Inr 0.6
   \<and> (\<exists>l m h k. risk_at [] Map.empty Map.empty ''low'' = Inr l
        \<and> risk_at [] Map.empty Map.empty ''medium'' = Inr m
        \<and> risk_at [] Map.empty Map.empty ''high'' = Inr h
        \<and> risk_at [] Map.empty Map.empty ''critical'' = Inr k
        \<and> l < 1 \<and> l < m \<and> m < 1 \<and> m < h \<and> h < 1 \<and> h < k)
   \<and> (\<exists>r. calculate_rule_based_risk [] Map.empty Map.empty = Inr r \<and> 0 \<le> r \<and> r \<le> 1)"
proof -
  have o: "risk_other_increments [] Map.empty Map.empty = 0"
    by (simp add: risk_other_increments_def dict_get_def in_strings_def feature_get_def)
  have v: "risk_at [] Map.empty Map.empty ''low'' = Inr 0.3"
    "risk_at [] Map.empty Map.empty ''medium'' = Inr 0.4"
    "risk_at [] Map.empty Map.empty ''high'' = Inr 0.5"
    "risk_at [] Map.empty Map.empty ''critical'' = Inr 0.6"
    by (simp_all add: risk_at_closed o)
  have w: "table_get risk_urgency_weights
             (dict_get_default Map.empty ''urgency_level'' (JStr ''medium'')) 0.1 = Inr 0.1"
    unfolding dict_get_default_def by (simp only: option.case table_get_risk) simp
  have q: "\<exists>r. calculate_rule_based_risk [] Map.empty Map.empty = Inr r"
    using rule_based_risk_closed [OF w, of "[]" Map.empty] by blast
  note mono = rule_based_risk_monotone_in_urgency [of "[]" Map.empty Map.empty]
  from mono q have every:
    "\<exists>r. calculate_rule_based_risk [] Map.empty Map.empty = Inr r \<and> 0 \<le> r \<and> r \<le> 1"
    by blast
  from mono
  obtain l m h k where
    "risk_at [] Map.empty Map.empty ''low'' = Inr l"
    "risk_at [] Map.empty Map.empty ''medium'' = Inr m"
    "risk_at [] Map.empty Map.empty ''high'' = Inr h"
    "risk_at [] Map.empty Map.empty ''critical'' = Inr k"
    "l < 1 \<longrightarrow> l < m" "m < 1 \<longrightarrow> m < h" "h < 1 \<longrightarrow> h < k"
    by blast
  with v every show ?thesis by simp
qed

lemma category_thresholds:
  fixes score :: real
  defines "cat \<equiv> (if score \<ge> 0.7 then ''high'' else if score \<ge> 0.4 then ''medium'' else ''low'')"
  shows "cat = ''high'' \<longleftrightarrow> score \<ge> 0.7"
    and "cat = ''medium'' \<longleftrightarrow> 0.4 \<le> score \<and> score < 0.7"
    and "cat = ''low'' \<longleftrightarrow> score < 0.4"
  unfolding cat_def by auto

text \<open>
  Claim C3. For every feature, sentiment and classification input, the assessment
  returned by \<open>predict_risk\<close> has category high exactly when its score is at least 0.7,
  medium exactly when the score is at least 0.4 and below 0.7, and low exactly when the
  score is below 0.4. A score of exactly 0.7 (urgency high, negative sentiment) is high,
  and a score of exactly 0.4 (urgency medium) is medium.
\<close>

theorem predict_risk_category_thresholds:
  "(risk_category (predict_risk f s c) = ''high'' \<longleftrightarrow> risk_score (predict_risk f s c) \<ge> 0.7)
   \<and> (risk_category (predict_risk f s c) = ''medium'' \<longleftrightarrow>
        0.4 \<le> risk_score (predict_risk f s c) \<and> risk_score (predict_risk f s c) < 0.7)
   \<and> (risk_category (predict_risk f s c) = ''low'' \<longleftrightarrow> risk_score (predict_risk f s c) < 0.4)
   \<and> risk_score (predict_risk [(''amount_mentioned'', 0)] [''sentiment'' \<mapsto> JStr ''negative'']
          [''urgency_level'' \<mapsto> JStr ''high'']) = 0.7
   \<and> risk_category (predict_risk [(''amount_mentioned'', 0)] [''sentiment'' \<mapsto> JStr ''negative'']
          [''urgency_level'' \<mapsto> JStr ''high'']) = ''high''
   \<and> risk_score (predict_risk [(''amount_mentioned'', 0)] Map.empty
          [''urgency_level'' \<mapsto> JStr ''medium'']) = 0.4
   \<and> risk_category (predict_risk [(''amount_mentioned'', 0)] Map.empty
          [''urgency_level'' \<mapsto> JStr ''medium'']) = ''medium''"
proof -
  have general:
    "(risk_category (predict_risk f s c) = ''high'' \<longleftrightarrow> risk_score (predict_risk f s c) \<ge> 0.7)
     \<and> (risk_category (predict_risk f s c) = ''medium'' \<longleftrightarrow>
          0.4 \<le> risk_score (predict_risk f s c) \<and> risk_score (predict_risk f s c) < 0.7)
     \<and> (risk_category (predict_risk f s c) = ''low'' \<longleftrightarrow> risk_score (predict_risk f s c) < 0.4)"
  proof (cases "f = []")
    case True
    then show ?thesis by (simp add: predict_risk_def default_risk_assessment_def)
  next
    case False
    show ?thesis
    proof (cases "calculate_rule_based_risk f s c")
      case (Inl e)
      with False show ?thesis by (simp add: predict_risk_def default_risk_assessment_def)
    next
      case (Inr score)
      with False show ?thesis
        unfolding predict_risk_def
        by (simp only: if_False sum.case risk_assessment.simps category_thresholds simp_thms)
    qed
  qed
  have o1: "risk_other_increments [(''amount_mentioned'', 0)] [''sentiment'' \<mapsto> JStr ''negative''] Map.empty = 0.2"
    by (simp add: risk_other_increments_def dict_get_def in_strings_def feature_get_def)
  have o2: "risk_other_increments [(''amount_mentioned'', 0)] Map.empty Map.empty = 0"
    by (simp add: risk_other_increments_def dict_get_def in_strings_def feature_get_def)
  have r1: "calculate_rule_based_risk [(''amount_mentioned'', 0)] [''sentiment'' \<mapsto> JStr ''negative'']
          [''urgency_level'' \<mapsto> JStr ''high''] = Inr 0.7"
    using risk_at_closed [of "[(''amount_mentioned'', 0)]" "[''sentiment'' \<mapsto> JStr ''negative'']" Map.empty "''high''"]
    by (simp add: risk_at_def o1)
  have r2: "calculate_rule_based_risk [(''amount_mentioned'', 0)] Map.empty
          [''urgency_level'' \<mapsto> JStr ''medium''] = Inr 0.4"
    using risk_at_closed [of "[(''amount_mentioned'', 0)]" Map.empty Map.empty "''medium''"]
    by (simp add: risk_at_def o2)
  have c1: "risk_score (predict_risk [(''amount_mentioned'', 0)] [''sentiment'' \<mapsto> JStr ''negative'']
          [''urgency_level'' \<mapsto> JStr ''high'']) = 0.7"
       "risk_category (predict_risk [(''amount_mentioned'', 0)] [''sentiment'' \<mapsto> JStr ''negative'']
          [''urgency_level'' \<mapsto> JStr ''high'']) = ''high''"
    by (simp_all add: predict_risk_def r1)
  have c2: "risk_score (predict_risk [(''amount_mentioned'', 0)] Map.empty
          [''urgency_level'' \<mapsto> JStr ''medium'']) = 0.4"
       "risk_category (predict_risk [(''amount_mentioned'', 0)] Map.empty
          [''urgency_level'' \<mapsto> JStr ''medium'']) = ''medium''"
    by (simp_all add: predict_risk_def r2)
  show ?thesis using general c1 c2 by blast
qed

section \<open>Properties of the escalation probability\<close>












section \<open>Properties of the login endpoints\<close>

lemma split_char_nonempty: "split_char c s \<noteq> []"
  by (induction s) (auto split: list.splits)

lemma hd_split_char: "hd (split_char c s) = takeWhile (\<lambda>x. x \<noteq> c) s"
  by (induction s) (auto split: list.splits simp: split_char_nonempty)

lemma split_char_single: "c \<notin> set s \<Longrightarrow> split_char c s = [s]"
  by (induction s) auto

lemma split_char_length: "length (split_char c s) = Suc (length (filter (\<lambda>x. x = c) s))"
  by (induction s) (auto split: list.splits simp: split_char_nonempty)

lemma split_char_single_iff: "split_char c s = [w] \<longleftrightarrow> c \<notin> set s \<and> w = s"
proof
  assume a: "split_char c s = [w]"
  then have "length (filter (\<lambda>x. x = c) s) = 0"
    using split_char_length [of c s] by simp
  then have "c \<notin> set s" by (auto simp: filter_empty_conv)
  with a show "c \<notin> set s \<and> w = s" by (simp add: split_char_single)
qed (simp add: split_char_single)

lemma takeWhile_rev_snoc_sep:
  "takeWhile (\<lambda>x. x \<noteq> c) (rev xs @ [c]) = takeWhile (\<lambda>x. x \<noteq> c) (rev xs)"
  by (auto simp: takeWhile_append takeWhile_eq_all_conv [THEN iffD2])

lemma last_split_char: "last (split_char c s) = rev (takeWhile (\<lambda>x. x \<noteq> c) (rev s))"
proof (induction s)
  case Nil
  then show ?case by simp
next
  case (Cons x xs)
  show ?case
  proof (cases "x = c")
    case True
    then show ?thesis using Cons by (simp add: split_char_nonempty takeWhile_append)
  next
    case False
    obtain w ws where sp: "split_char c xs = w # ws"
      using split_char_nonempty [of c xs] by (cases "split_char c xs") auto
    show ?thesis
    proof (cases "ws = []")
      case True
      with sp have "c \<notin> set xs" "w = xs" using split_char_single_iff [of c xs w] by simp_all
      then show ?thesis using False sp True by (simp add: takeWhile_append)
    next
      case nonempty: False
      have "c \<in> set xs"
      proof (rule ccontr)
        assume "c \<notin> set xs"
        then have "split_char c xs = [xs]" by (rule split_char_single)
        with sp nonempty show False by simp
      qed
      then have "takeWhile (\<lambda>x. x \<noteq> c) (rev xs @ [x]) = takeWhile (\<lambda>x. x \<noteq> c) (rev xs)"
        by (auto simp: takeWhile_append)
      then show ?thesis using False sp nonempty Cons by simp
    qed
  qed
qed

lemma split_char_at:
  "c \<notin> set a \<Longrightarrow> split_char c (a @ c # b) = a # split_char c b"
  by (induction a) auto

lemma parse_combined_username_one_at:
  assumes "CHR ''@'' \<notin> set local_part" and "CHR ''@'' \<notin> set seg"
  shows "parse_combined_username (local_part @ ''@'' @ seg) =
           Inr (local_part @ ''@'' @ before_first (CHR ''_'') seg,
                if CHR ''_'' \<in> set seg then after_last (CHR ''_'') seg else ''default'')"
proof -
  have sp: "split_char (CHR ''@'') (local_part @ ''@'' @ seg) = [local_part, seg]"
    using assms by (simp add: split_char_at split_char_single)
  show ?thesis
    unfolding parse_combined_username_def sp Let_def before_first_def after_last_def
    by (simp add: hd_split_char last_split_char)
qed

lemma before_first_absent: "c \<notin> set s \<Longrightarrow> before_first c s = s"
  by (auto simp: before_first_def takeWhile_eq_all_conv)

lemma parse_combined_username_rejects:
  assumes "length (filter (\<lambda>x. x = CHR ''@'') username) \<noteq> 1"
  shows "parse_combined_username username =
           Inl \<lparr> status_code = 400, detail = ''Invalid username format'' \<rparr>"
proof -
  have "length (split_char (CHR ''@'') username) \<noteq> 2"
    using assms by (simp add: split_char_length)
  then show ?thesis
    unfolding parse_combined_username_def
    by (auto split: list.splits)
qed

text \<open>
  Claim C10. For a combined username with one at-sign (what the endpoint accepts), let
  the segment be the text after it. Without an underscore in the segment the tenant id
  is the literal "default" and the email is the whole username, no validation error;
  with an underscore the email ends before the first underscore of the segment and the
  tenant id is the text after its last underscore. For the plain username
  "user@example.com" authentication is attempted against tenant "default". A username
  with no or with several at-signs is answered with the 400 response.
\<close>

theorem combined_username_tenant_parsing:
  assumes "CHR ''@'' \<notin> set local_part" and "CHR ''@'' \<notin> set seg"
  shows "(CHR ''_'' \<notin> set seg \<longrightarrow>
            parse_combined_username (local_part @ ''@'' @ seg) =
              Inr (local_part @ ''@'' @ seg, ''default''))
       \<and> (CHR ''_'' \<in> set seg \<longrightarrow>
            parse_combined_username (local_part @ ''@'' @ seg) =
              Inr (local_part @ ''@'' @ before_first (CHR ''_'') seg, after_last (CHR ''_'') seg))
       \<and> parse_combined_username ''user@example.com'' = Inr (''user@example.com'', ''default'')
       \<and> login_for_access_token verify expire_minutes rows ''user@example.com'' password =
           (case authenticate_user verify rows ''user@example.com'' password ''default'' of
              Inl e \<Rightarrow> Inl \<lparr> status_code = 500, detail = ''Login failed'' \<rparr>
            | Inr None \<Rightarrow> Inl \<lparr> status_code = 401, detail = ''Incorrect email or password'' \<rparr>
            | Inr (Some u) \<Rightarrow> Inr (token_for expire_minutes u))
       \<and> (length (filter (\<lambda>x. x = CHR ''@'') username) \<noteq> 1 \<longrightarrow>
            parse_combined_username username =
              Inl \<lparr> status_code = 400, detail = ''Invalid username format'' \<rparr>)"
proof -
  have plain: "parse_combined_username ''user@example.com'' = Inr (''user@example.com'', ''default'')"
    using parse_combined_username_one_at [of "''user''" "''example.com''"]
    by (simp add: before_first_def)
  have login: "login_for_access_token verify expire_minutes rows ''user@example.com'' password =
           (case authenticate_user verify rows ''user@example.com'' password ''default'' of
              Inl e \<Rightarrow> Inl \<lparr> status_code = 500, detail = ''Login failed'' \<rparr>
            | Inr None \<Rightarrow> Inl \<lparr> status_code = 401, detail = ''Incorrect email or password'' \<rparr>
            | Inr (Some u) \<Rightarrow> Inr (token_for expire_minutes u))"
    unfolding login_for_access_token_def plain by simp
  show ?thesis
    using parse_combined_username_one_at [OF assms] plain login
      parse_combined_username_rejects [of username]
    by (simp add: before_first_absent)
qed

text \<open>The usernames jane@example.com_acme, jane@example.com and jane@example.com@acme.\<close>

theorem combined_username_tenant_parsing_witness:
  "CHR ''@'' \<notin> set ''jane'' \<and> CHR ''@'' \<notin> set ''example.com_acme''
   \<and> CHR ''_'' \<in> set ''example.com_acme''
   \<and> parse_combined_username ''jane@example.com_acme'' = Inr (''jane@example.com'', ''acme'')
   \<and> CHR ''@'' \<notin> set ''example.com'' \<and> CHR ''_'' \<notin> set ''example.com''
   \<and> parse_combined_username ''jane@example.com'' = Inr (''jane@example.com'', ''default'')
   \<and> length (filter (\<lambda>x. x = CHR ''@'') ''jane@example.com@acme'') \<noteq> 1
   \<and> parse_combined_username ''jane@example.com@acme'' =
       Inl \<lparr> status_code = 400, detail = ''Invalid username format'' \<rparr>"
  using combined_username_tenant_parsing
          [where local_part = "''jane''" and seg = "''example.com_acme''"
             and username = "''jane@example.com@acme''"]
        combined_username_tenant_parsing
          [where local_part = "''jane''" and seg = "''example.com''"
             and username = "''jane@example.com@acme''"]
  by (simp add: before_first_def after_last_def)

text \<open>
  When no active user of the tenant has the email and when exactly one has it but
  verification returns False, \<open>authenticate_user\<close> returns None and both login
  endpoints answer with their 401 response.
\<close>

lemma authenticate_user_no_match_when_not_verified:
  assumes missing: "active_users_by_email rows_a em tid = []"
      and present: "active_users_by_email rows_b em tid = [u]"
      and mismatch: "verify password (hashed_password u) = Inr False"
      and parsed: "parse_combined_username username = Inr (em, tid)"
  shows "authenticate_user verify rows_a em password tid = Inr None
       \<and> authenticate_user verify rows_b em password tid = Inr None
       \<and> login_user verify expire_minutes rows_a em password tid =
           Inl \<lparr> status_code = 401, detail = ''Incorrect credentials'' \<rparr>
       \<and> login_user verify expire_minutes rows_b em password tid =
           Inl \<lparr> status_code = 401, detail = ''Incorrect credentials'' \<rparr>
       \<and> login_for_access_token verify expire_minutes rows_a username password =
           Inl \<lparr> status_code = 401, detail = ''Incorrect email or password'' \<rparr>
       \<and> login_for_access_token verify expire_minutes rows_b username password =
           Inl \<lparr> status_code = 401, detail = ''Incorrect email or password'' \<rparr>"
proof -
  have a1: "authenticate_user verify rows_a em password tid = Inr None"
    by (simp add: authenticate_user_def get_user_by_email_def missing)
  have a2: "authenticate_user verify rows_b em password tid = Inr None"
    by (simp add: authenticate_user_def get_user_by_email_def present mismatch)
  show ?thesis
    by (simp add: a1 a2 login_user_def login_for_access_token_def parsed)
qed

text \<open>
  Verification is reached only when the user exists. When it raises, the exception
  leaves \<open>authenticate_user\<close> and the login endpoint answers 500.
\<close>

lemma authenticate_user_raises_when_verify_raises:
  assumes present: "active_users_by_email rows em tid = [u]"
      and raises: "verify password (hashed_password u) = Inl e"
  shows "authenticate_user verify rows em password tid = Inl e
       \<and> login_user verify expire_minutes rows em password tid =
           Inl \<lparr> status_code = 500, detail = ''Login failed'' \<rparr>"
  by (simp add: authenticate_user_def get_user_by_email_def present raises login_user_def)

lemma authenticate_user_missing:
  assumes missing: "active_users_by_email rows em tid = []"
  shows "authenticate_user verify rows em password tid = Inr None
       \<and> login_user verify expire_minutes rows em password tid =
           Inl \<lparr> status_code = 401, detail = ''Incorrect credentials'' \<rparr>"
  by (simp add: authenticate_user_def get_user_by_email_def missing login_user_def)

lemma oversized_raises:
  "example_verify oversized_password hashed =
     Inl (ValueError ''password exceeds maximum allowed size'')"
  by (simp add: example_verify_def oversized_password_def)

text \<open>
  Claim C6 says that a caller cannot tell a missing user from a wrong password. The
  model shows where the source departs from it: \<^verbatim>\<open>verify_password\<close> runs unguarded and
  only for an existing user, so a password on which the library raises (here one of
  more than 4096 characters) is answered with 500 for an existing user and with 401
  for a missing one, at both login endpoints. A password on which verification returns
  False is answered with 401 in both cases.
\<close>

theorem login_reveals_existing_user:
  "login_user example_verify 30 [alice, bob] ''alice@example.com'' oversized_password ''t-1'' =
     Inl \<lparr> status_code = 500, detail = ''Login failed'' \<rparr>
   \<and> login_user example_verify 30 [alice, bob] ''nobody@example.com'' oversized_password ''t-1'' =
     Inl \<lparr> status_code = 401, detail = ''Incorrect credentials'' \<rparr>
   \<and> login_for_access_token example_verify 30 [alice, bob] ''alice@example.com_t-1''
       oversized_password =
     Inl \<lparr> status_code = 500, detail = ''Login failed'' \<rparr>
   \<and> login_for_access_token example_verify 30 [alice, bob] ''nobody@example.com_t-1''
       oversized_password =
     Inl \<lparr> status_code = 401, detail = ''Incorrect email or password'' \<rparr>
   \<and> login_user example_verify 30 [alice, bob] ''alice@example.com'' ''guess'' ''t-1'' =
     Inl \<lparr> status_code = 401, detail = ''Incorrect credentials'' \<rparr>
   \<and> login_user example_verify 30 [alice, bob] ''nobody@example.com'' ''guess'' ''t-1'' =
     Inl \<lparr> status_code = 401, detail = ''Incorrect credentials'' \<rparr>"
proof -
  have h1: "active_users_by_email [alice, bob] ''nobody@example.com'' ''t-1'' = []"
    by (simp add: active_users_by_email_def alice_def bob_def)
  have h2: "active_users_by_email [alice, bob] ''alice@example.com'' ''t-1'' = [alice]"
    by (simp add: active_users_by_email_def alice_def bob_def)
  have p1: "parse_combined_username ''alice@example.com_t-1'' = Inr (''alice@example.com'', ''t-1'')"
    by (simp add: parse_combined_username_def)
  have p2: "parse_combined_username ''nobody@example.com_t-1'' = Inr (''nobody@example.com'', ''t-1'')"
    by (simp add: parse_combined_username_def)
  have guess: "example_verify ''guess'' (hashed_password alice) = Inr False"
    by (simp add: example_verify_def alice_def)
  have a1: "authenticate_user example_verify [alice, bob] ''alice@example.com'' oversized_password ''t-1''
              = Inl (ValueError ''password exceeds maximum allowed size'')"
    using authenticate_user_raises_when_verify_raises
            [where verify = example_verify and password = oversized_password and u = alice
               and rows = "[alice, bob]" and em = "''alice@example.com''" and tid = "''t-1''"]
          h2 oversized_raises
    by simp
  have a2: "authenticate_user example_verify [alice, bob] ''nobody@example.com'' pw ''t-1'' = Inr None"
    for pw
    using authenticate_user_missing [OF h1, of example_verify pw] by simp
  have a3: "authenticate_user example_verify [alice, bob] ''alice@example.com'' ''guess'' ''t-1'' = Inr None"
    by (simp add: authenticate_user_def get_user_by_email_def h2 guess)
  show ?thesis
    by (simp add: login_user_def login_for_access_token_def p1 p2 a1 a2 a3)
qed

section \<open>Properties of user deactivation\<close>

lemma filter_unique_row:
  assumes "distinct (map user_id rows)" and "t \<in> set rows"
  shows "filter (\<lambda>u. user_id u = user_id t \<and> tenant_id u = tenant_id t) rows = [t]"
  using assms
proof (induction rows)
  case Nil
  then show ?case by simp
next
  case (Cons r rows)
  show ?case
  proof (cases "r = t")
    case True
    have "user_id t \<notin> user_id ` set rows"
      using Cons.prems(1) True by simp
    then have "\<forall>x \<in> set rows. user_id x \<noteq> user_id t"
      by (metis imageI)
    then have "filter (\<lambda>u. user_id u = user_id t \<and> tenant_id u = tenant_id t) rows = []"
      by (simp add: filter_empty_conv)
    with True show ?thesis by simp
  next
    case False
    with Cons.prems have t: "t \<in> set rows" by simp
    with Cons.prems(1) have "user_id r \<noteq> user_id t" by auto
    with Cons t show ?thesis by simp
  qed
qed

lemma is_admin: "role c = ''admin'' \<or> role c = ''regulator'' \<Longrightarrow> require_admin_role c = Inr c"
  by (auto simp: require_admin_role_def)

text \<open>
  Whoever the caller is, a request to deactivate the caller's own id is answered with
  an error and leaves the state as it was.
\<close>

lemma deactivate_self_state_unchanged:
  "snd (deactivate_user db caller (user_id caller)) = db
   \<and> (\<exists>e. fst (deactivate_user db caller (user_id caller)) = Inl e)"
proof (cases "require_admin_role caller")
  case (Inl e)
  then show ?thesis by (simp add: deactivate_user_def)
next
  case (Inr cu)
  then have cu: "cu = caller" by (auto simp: require_admin_role_def split: if_splits)
  let ?rows = "filter (\<lambda>u. user_id u = user_id caller \<and> tenant_id u = tenant_id caller) (users db)"
  show ?thesis
  proof (cases "scalar_one_or_none ?rows")
    case (Inl e)
    with Inr cu show ?thesis by (simp add: deactivate_user_def)
  next
    case found: (Inr r)
    show ?thesis
    proof (cases r)
      case None
      with Inr cu found show ?thesis by (simp add: deactivate_user_def)
    next
      case (Some target)
      with found have "?rows = [target]"
        by (cases ?rows rule: scalar_one_or_none.cases) auto
      then have "target \<in> set ?rows" by simp
      then have "user_id target = user_id caller" by simp
      with Inr cu found Some show ?thesis by (simp add: deactivate_user_def)
    qed
  qed
qed

text \<open>
  Claim C9. Let the caller be an admin or a regulator and a row of the users table
  (as the authentication dependency returns it), with user ids unique. Deactivating the
  caller's own id is rejected with status 400 and leaves the database state as it was:
  no flag changes and no audit row is written. Deactivating another user of the same
  tenant succeeds, sets that user's \<open>is_active\<close> to False, changes no other row, and
  appends one audit row that names the action.
\<close>

theorem deactivate_user_self_and_other:
  assumes admin: "role caller = ''admin'' \<or> role caller = ''regulator''"
      and caller_row: "caller \<in> set (users db)"
      and target_row: "target \<in> set (users db)"
      and primary_key: "distinct (map user_id (users db))"
      and same_tenant: "tenant_id target = tenant_id caller"
      and other: "user_id target \<noteq> user_id caller"
  shows "deactivate_user db caller (user_id caller) =
           (Inl \<lparr> status_code = 400, detail = ''Cannot deactivate your own account'' \<rparr>, db)
       \<and> fst (deactivate_user db caller (user_id target)) =
           Inr [(''message'', ''User deactivated successfully''), (''user_id'', user_id target)]
       \<and> users (snd (deactivate_user db caller (user_id target))) =
           map (\<lambda>u. if u = target then u\<lparr> is_active := False \<rparr> else u) (users db)
       \<and> audit_logs (snd (deactivate_user db caller (user_id target))) =
           audit_logs db @
             [\<lparr> log_tenant_id = tenant_id caller, log_user_id = user_id caller,
                log_action = ''user_deactivated'',
                log_payload = [(''user_id'', user_id target), (''email'', email target)] \<rparr>]"
proof -
  have self: "filter (\<lambda>u. user_id u = user_id caller \<and> tenant_id u = tenant_id caller) (users db)
                = [caller]"
    by (rule filter_unique_row [OF primary_key caller_row])
  have tgt: "filter (\<lambda>u. user_id u = user_id target \<and> tenant_id u = tenant_id caller) (users db)
                = [target]"
    using filter_unique_row [OF primary_key target_row] same_tenant by simp
  have upd: "set_inactive (user_id target) (tenant_id caller) (users db) =
               map (\<lambda>u. if u = target then u\<lparr> is_active := False \<rparr> else u) (users db)"
    unfolding set_inactive_def
  proof (rule map_cong [OF refl])
    fix u assume u: "u \<in> set (users db)"
    have "user_id u = user_id target \<Longrightarrow> u = target"
      using primary_key u target_row by (auto simp: distinct_map inj_on_def)
    then show "(if user_id u = user_id target \<and> tenant_id u = tenant_id caller
                then u\<lparr> is_active := False \<rparr> else u) =
               (if u = target then u\<lparr> is_active := False \<rparr> else u)"
      using same_tenant by auto
  qed
  show ?thesis
    using other
    by (simp add: deactivate_user_def is_admin [OF admin] self tgt upd Let_def)
qed

text \<open>Alice, an admin, deactivates herself and then Bob.\<close>

theorem deactivate_user_witness:
  "(role alice = ''admin'' \<or> role alice = ''regulator'')
   \<and> alice \<in> set (users example_database) \<and> bob \<in> set (users example_database)
   \<and> distinct (map user_id (users example_database))
   \<and> tenant_id bob = tenant_id alice \<and> user_id bob \<noteq> user_id alice
   \<and> deactivate_user example_database alice ''u-1'' =
       (Inl \<lparr> status_code = 400, detail = ''Cannot deactivate your own account'' \<rparr>, example_database)
   \<and> users (snd (deactivate_user example_database alice ''u-2'')) = [alice, bob\<lparr> is_active := False \<rparr>]
   \<and> length (audit_logs (snd (deactivate_user example_database alice ''u-2''))) = 1"
proof -
  have h: "role alice = ''admin'' \<or> role alice = ''regulator''"
    "alice \<in> set (users example_database)" "bob \<in> set (users example_database)"
    "distinct (map user_id (users example_database))"
    "tenant_id bob = tenant_id alice" "user_id bob \<noteq> user_id alice"
    by (simp_all add: example_database_def alice_def bob_def)
  have ids: "user_id alice = ''u-1''" "user_id bob = ''u-2''" "alice \<noteq> bob"
    by (simp_all add: alice_def bob_def)
  from deactivate_user_self_and_other [OF h] h ids
  show ?thesis by (simp add: example_database_def)
qed

section \<open>Properties of the similar complaint search\<close>

lemma similar_row_summary:
  "similar_row (c, None) = complaint_summary c None None"
  "similar_row (c, Some r) = complaint_summary c (Some (r_risk r)) (Some (r_category r))"
  by (simp_all add: similar_row_def complaint_summary_def)

lemma joined_rows_of_complaint:
  "map similar_row
     (filter (\<lambda>row. c_tenant_id (fst row) = tid \<and> c_embedding (fst row) \<noteq> None)
        (if risk_rows_of risks (c_id c) = [] then [(c, None)]
         else map (\<lambda>r. (c, Some r)) (risk_rows_of risks (c_id c)))) =
   (if c_tenant_id c = tid \<and> c_embedding c \<noteq> None then expected_rows_of risks c else [])"
  by (auto simp: expected_rows_of_def risk_rows_of_def similar_row_summary filter_map o_def
      filter_empty_conv)

lemma selected_join_rows:
  "map similar_row
     (filter (\<lambda>row. c_tenant_id (fst row) = tid \<and> c_embedding (fst row) \<noteq> None)
        (left_join_risk complaints risks)) =
   expected_similar_rows complaints risks tid"
proof (induction complaints)
  case Nil
  then show ?case by (simp add: left_join_risk_def expected_similar_rows_def)
next
  case (Cons c cs)
  have split: "left_join_risk (c # cs) risks =
      (if risk_rows_of risks (c_id c) = [] then [(c, None)]
       else map (\<lambda>r. (c, Some r)) (risk_rows_of risks (c_id c))) @ left_join_risk cs risks"
    by (simp add: left_join_risk_def)
  have ex: "expected_similar_rows (c # cs) risks tid =
      (if c_tenant_id c = tid \<and> c_embedding c \<noteq> None then expected_rows_of risks c else [])
      @ expected_similar_rows cs risks tid"
    unfolding expected_similar_rows_def
    by (cases "c_tenant_id c = tid \<and> c_embedding c \<noteq> None") auto
  show ?case
    by (simp only: split ex filter_append map_append joined_rows_of_complaint Cons.IH)
qed

lemma similar_query_all:
  assumes "length (expected_similar_rows complaints risks tid) \<le> n"
  shows "mset (map similar_row (similar_query complaints risks tid n)) =
           mset (expected_similar_rows complaints risks tid)"
proof -
  let ?sel = "filter (\<lambda>row. c_tenant_id (fst row) = tid \<and> c_embedding (fst row) \<noteq> None)
                (left_join_risk complaints risks)"
  let ?ord = "sort_key (\<lambda>row. - c_created_at (fst row)) ?sel"
  have "length ?sel = length (expected_similar_rows complaints risks tid)"
    using selected_join_rows [of tid complaints risks, THEN arg_cong, of length] by simp
  then have "take n ?ord = ?ord" using assms by simp
  then have "mset (map similar_row (similar_query complaints risks tid n)) =
               mset (map similar_row ?sel)"
    unfolding similar_query_def by simp
  then show ?thesis unfolding selected_join_rows .
qed

lemma similar_query_sorted:
  "sorted_wrt (\<lambda>a b. c_created_at (fst a) \<ge> c_created_at (fst b))
     (similar_query complaints risks tid n)"
proof -
  let ?rows = "filter (\<lambda>row. c_tenant_id (fst row) = tid \<and> c_embedding (fst row) \<noteq> None)
             (left_join_risk complaints risks)"
  have "sorted (map (\<lambda>row. - c_created_at (fst row)) (sort_key (\<lambda>row. - c_created_at (fst row)) ?rows))"
    by (rule sorted_sort_key)
  then have "sorted_wrt (\<lambda>a b. - c_created_at (fst a) \<le> - c_created_at (fst b))
               (sort_key (\<lambda>row. - c_created_at (fst row)) ?rows)"
    by (simp add: sorted_map)
  then have "sorted_wrt (\<lambda>a b. c_created_at (fst a) \<ge> c_created_at (fst b))
               (sort_key (\<lambda>row. - c_created_at (fst row)) ?rows)"
    by simp
  then show ?thesis unfolding similar_query_def by (rule sorted_wrt_take)
qed

lemma similar_query_take:
  "similar_query complaints risks tid n = take n (similar_query complaints risks tid m)"
  if "length (expected_similar_rows complaints risks tid) \<le> m"
proof -
  let ?sel = "filter (\<lambda>row. c_tenant_id (fst row) = tid \<and> c_embedding (fst row) \<noteq> None)
                (left_join_risk complaints risks)"
  let ?ord = "sort_key (\<lambda>row. - c_created_at (fst row)) ?sel"
  have "length ?sel = length (expected_similar_rows complaints risks tid)"
    using selected_join_rows [of tid complaints risks, THEN arg_cong, of length] by simp
  then have "take m ?ord = ?ord" using that by simp
  then show ?thesis unfolding similar_query_def by simp
qed

lemma scored_twice_result:
  "map s_id (find_similar_complaints embedding_ok scored_twice_complaints scored_twice_risks
               ''late fee'' ''t-1'' 10 0.7) = [1, 1]"
  "map s_risk_score (find_similar_complaints embedding_ok scored_twice_complaints scored_twice_risks
               ''late fee'' ''t-1'' 10 0.7) = [Some 0.2, Some 0.9]"
  by (simp_all add: find_similar_complaints_def embedding_ok_def similar_query_def
      left_join_risk_def risk_rows_of_def scored_twice_complaints_def scored_twice_risks_def
      similar_row_def)

text \<open>
  Claim C7 as stated fails for a complaint with two risk score rows: the complaint is
  returned twice, once with each risk score, and the row carrying 0.2 is not joined with
  the most recent risk score, which is 0.9.
\<close>

theorem find_similar_not_latest_risk_counterexample:
  "map s_id (find_similar_complaints embedding_ok scored_twice_complaints scored_twice_risks
               ''late fee'' ''t-1'' 10 0.7) = [1, 1]
   \<and> map s_risk_score (find_similar_complaints embedding_ok scored_twice_complaints scored_twice_risks
               ''late fee'' ''t-1'' 10 0.7) = [Some 0.2, Some 0.9]
   \<and> map_option r_risk (most_recent_risk scored_twice_risks 1) = Some 0.9"
proof -
  have "map_option r_risk (most_recent_risk scored_twice_risks 1) = Some 0.9"
    by (simp add: most_recent_risk_def risk_rows_of_def scored_twice_risks_def)
  then show ?thesis using scored_twice_result by simp
qed

text \<open>
  Claim C7, amended. When the embedding call succeeds and the limit is not negative,
  \<open>find_similar_complaints\<close> lists the complaints of the tenant that have a stored
  embedding, left joined with their risk score rows: a complaint appears once for each
  of its risk score rows, with that row's risk and category, and once with empty risk
  fields when it has none, and nothing else appears (the listing with a limit as large
  as the number of such rows holds exactly them, with multiplicity). The listing is
  ordered by complaint creation time descending, and the result is its first \<open>limit\<close>
  rows. Every row has similarity score 0.85, and the result does not depend on the
  query text, the embedding or the threshold. When the embedding call fails the result
  is the empty list.
\<close>

theorem find_similar_complaints_left_join:
  assumes emb: "create_embedding query_text = Inr v" and lim: "0 \<le> limit"
  shows "mset (find_similar_complaints create_embedding complaints risks query_text tid
                 (int (length (expected_similar_rows complaints risks tid))) thr)
           = mset (expected_similar_rows complaints risks tid)
       \<and> sorted_wrt (\<lambda>a b. s_created_at a \<ge> s_created_at b)
           (find_similar_complaints create_embedding complaints risks query_text tid
              (int (length (expected_similar_rows complaints risks tid))) thr)
       \<and> find_similar_complaints create_embedding complaints risks query_text tid limit thr =
           take (nat limit)
             (find_similar_complaints create_embedding complaints risks query_text tid
                (int (length (expected_similar_rows complaints risks tid))) thr)
       \<and> length (find_similar_complaints create_embedding complaints risks query_text tid limit thr)
           = min (nat limit) (length (expected_similar_rows complaints risks tid))
       \<and> (\<forall>s \<in> set (find_similar_complaints create_embedding complaints risks query_text tid limit thr).
             s_similarity_score s = 0.85)
       \<and> (\<forall>other_embedding other_text other_thr w. other_embedding other_text = Inr w \<longrightarrow>
             find_similar_complaints other_embedding complaints risks other_text tid limit other_thr =
             find_similar_complaints create_embedding complaints risks query_text tid limit thr)
       \<and> find_similar_complaints (\<lambda>q. Inl e) complaints risks query_text tid limit thr = []"
proof -
  let ?n = "length (expected_similar_rows complaints risks tid)"
  let ?result = "find_similar_complaints create_embedding complaints risks query_text tid limit thr"
  let ?full = "find_similar_complaints create_embedding complaints risks query_text tid (int ?n) thr"
  have eq: "find_similar_complaints ce complaints risks q tid limit t =
              map similar_row (similar_query complaints risks tid (nat limit))"
    if "ce q = Inr w" for ce q t w
    using that lim by (simp add: find_similar_complaints_def)
  have res: "?result = map similar_row (similar_query complaints risks tid (nat limit))"
    using emb by (rule eq)
  have full: "?full = map similar_row (similar_query complaints risks tid ?n)"
    using emb by (simp add: find_similar_complaints_def)
  have all: "mset ?full = mset (expected_similar_rows complaints risks tid)"
    unfolding full by (rule similar_query_all) simp
  have ordered: "sorted_wrt (\<lambda>a b. s_created_at a \<ge> s_created_at b) ?full"
    unfolding full using similar_query_sorted [of complaints risks tid ?n]
    by (simp add: sorted_wrt_map similar_row_def)
  have prefix: "?result = take (nat limit) ?full"
    unfolding full res using similar_query_take [of complaints risks tid ?n "nat limit"]
    by (simp add: take_map)
  have "length ?full = ?n" using all [THEN arg_cong, of size] by simp
  then have len: "length ?result = min (nat limit) ?n"
    using prefix [THEN arg_cong, of length] by simp
  have score: "\<forall>s \<in> set ?result. s_similarity_score s = 0.85"
    unfolding res by (simp add: similar_row_def)
  have indep: "\<forall>other_embedding other_text other_thr w. other_embedding other_text = Inr w \<longrightarrow>
             find_similar_complaints other_embedding complaints risks other_text tid limit other_thr =
             ?result"
    unfolding res using eq by blast
  have down: "find_similar_complaints (\<lambda>q. Inl e) complaints risks query_text tid limit thr = []"
    by (simp add: find_similar_complaints_def)
  show ?thesis using all ordered prefix len score indep down by blast
qed

lemma mixed_expected:
  "expected_similar_rows mixed_complaints mixed_risks ''t-1'' =
     [complaint_summary (mixed_complaints ! 0) (Some 0.2) (Some ''low''),
      complaint_summary (mixed_complaints ! 0) (Some 0.9) (Some ''high''),
      complaint_summary (mixed_complaints ! 1) None None]"
  by (simp add: expected_similar_rows_def expected_rows_of_def mixed_complaints_def
      mixed_risks_def scored_twice_risks_def)

text \<open>
  Of the four complaints the search for the first tenant lists the unscored one first
  (it is the newest), then the complaint scored twice, once for each score; with limit 1
  it returns the unscored complaint alone.
\<close>

theorem find_similar_complaints_witness:
  "embedding_ok ''late fee'' = Inr [0.5, 0.5] \<and> (0::int) \<le> 1
   \<and> length (expected_similar_rows mixed_complaints mixed_risks ''t-1'') = 3
   \<and> find_similar_complaints embedding_ok mixed_complaints mixed_risks ''late fee'' ''t-1'' 3 0.7 =
       [complaint_summary (mixed_complaints ! 1) None None,
        complaint_summary (mixed_complaints ! 0) (Some 0.2) (Some ''low''),
        complaint_summary (mixed_complaints ! 0) (Some 0.9) (Some ''high'')]
   \<and> find_similar_complaints embedding_ok mixed_complaints mixed_risks ''late fee'' ''t-1'' 1 0.7 =
       [complaint_summary (mixed_complaints ! 1) None None]
   \<and> find_similar_complaints embedding_ok mixed_complaints mixed_risks ''other text'' ''t-1'' 1 0.1 =
       find_similar_complaints embedding_ok mixed_complaints mixed_risks ''late fee'' ''t-1'' 1 0.7
   \<and> find_similar_complaints embedding_down mixed_complaints mixed_risks ''late fee'' ''t-1'' 1 0.7 = []"
proof -
  have h: "embedding_ok ''late fee'' = Inr [0.5, 0.5]" "(0::int) \<le> 1"
    by (simp_all add: embedding_ok_def)
  have n: "length (expected_similar_rows mixed_complaints mixed_risks ''t-1'') = 3"
    by (simp add: mixed_expected)
  have three: "find_similar_complaints embedding_ok mixed_complaints mixed_risks ''late fee'' ''t-1'' 3 0.7 =
       [complaint_summary (mixed_complaints ! 1) None None,
        complaint_summary (mixed_complaints ! 0) (Some 0.2) (Some ''low''),
        complaint_summary (mixed_complaints ! 0) (Some 0.9) (Some ''high'')]"
    by (simp add: find_similar_complaints_def embedding_ok_def similar_query_def
      left_join_risk_def risk_rows_of_def mixed_complaints_def mixed_risks_def
      scored_twice_risks_def similar_row_def complaint_summary_def)
  have d: "find_similar_complaints embedding_down mixed_complaints mixed_risks ''late fee'' ''t-1'' 1 0.7 = []"
    by (simp add: find_similar_complaints_def embedding_down_def)
  have o: "embedding_ok ''other text'' = Inr [0.5, 0.5]" by (simp add: embedding_ok_def)
  note lj = find_similar_complaints_left_join
         [where create_embedding = embedding_ok and query_text = "''late fee''"
            and v = "[0.5, 0.5]" and limit = 1 and complaints = mixed_complaints
            and risks = mixed_risks and tid = "''t-1''" and thr = "0.7", OF h]
  from lj have pre: "find_similar_complaints embedding_ok mixed_complaints mixed_risks ''late fee'' ''t-1'' 1 0.7 =
      take (nat 1) (find_similar_complaints embedding_ok mixed_complaints mixed_risks ''late fee'' ''t-1''
         (int (length (expected_similar_rows mixed_complaints mixed_risks ''t-1''))) 0.7)"
    by blast
  have one: "find_similar_complaints embedding_ok mixed_complaints mixed_risks ''late fee'' ''t-1'' 1 0.7 =
       [complaint_summary (mixed_complaints ! 1) None None]"
    unfolding pre n using three by simp
  from lj o have ind: "find_similar_complaints embedding_ok mixed_complaints mixed_risks ''other text'' ''t-1'' 1 0.1 =
      find_similar_complaints embedding_ok mixed_complaints mixed_risks ''late fee'' ''t-1'' 1 0.7"
    by blast
  show ?thesis using h n three one ind d by simp
qed

section \<open>Properties of the workflow and of the analysis endpoint\<close>

lemma name_time: "global_name ''time'' = Inl (NameError ''time'')"
  by (simp add: global_name_def workflow_module_names_def)

lemma send_agent_message_raises:
  "send_agent_message now comm_log from_agent to_agent msg state = Inl (NameError ''time'')"
  by (simp add: send_agent_message_def name_time)

lemma run_node_raises:
  "run_node enter_db agents summary now a b ls =
     Inl (case enter_db of Inl e \<Rightarrow> e | Inr db \<Rightarrow> NameError ''time'')"
  by (simp add: run_node_def send_agent_message_raises Let_def split: sum.split)

lemma run_nodes_raises:
  "run_nodes enter_db agents summary now workflow_edges ls =
     Inl (case enter_db of Inl e \<Rightarrow> e | Inr db \<Rightarrow> NameError ''time'')"
  by (simp add: workflow_edges_def run_node_raises)

text \<open>
  Claim C1 says that every run of \<open>process_complaint\<close> goes through all six agents and
  returns a final state with six processing steps and a non-empty errors list. The
  model shows what the source does instead: the first node raises before it hands over
  to the second (\<^verbatim>\<open>_send_agent_message\<close> reads \<^verbatim>\<open>time.time()\<close>, and workflow.py never
  imports \<^verbatim>\<open>time\<close>), so for all agents and inputs the call returns the failure
  dictionary, with no processing step and no errors key. No exception reaches the caller.
\<close>

theorem process_complaint_returns_failure:
  "process_complaint enter_db agents summary now cid narrative tid uid =
     FailureDict \<lparr> f_complaint_id = cid, f_workflow_status = ''failed'',
                   f_error = str_exception (case enter_db of Inl e \<Rightarrow> e | Inr db \<Rightarrow> NameError ''time''),
                   f_results = JDict [], f_processing_steps = [], f_conversation = [] \<rparr>
   \<and> length (result_processing_steps
         (process_complaint enter_db agents summary now cid narrative tid uid)) = 0
   \<and> result_errors (process_complaint enter_db agents summary now cid narrative tid uid) = None"
  by (simp add: process_complaint_def run_nodes_raises)

lemma select_complaint_raw_not_loaded:
  "complaint \<in> set (select_complaint_raw db cid tid) \<Longrightarrow> o_labels complaint = NotLoaded"
  by (auto simp: select_complaint_raw_def)

lemma analysis_of_object_raises:
  "o_labels complaint = NotLoaded \<Longrightarrow>
     analysis_of_object process current_user cid complaint = Inl MissingGreenlet"
  by (simp add: analysis_of_object_def)

lemma get_complaint_analysis_never_answers:
  "get_complaint_analysis process db current_user cid =
     Inl \<lparr> status_code = 404, detail = ''Complaint not found'' \<rparr>
   \<or> get_complaint_analysis process db current_user cid =
     Inl \<lparr> status_code = 500, detail = ''Failed to retrieve complaint analysis'' \<rparr>"
proof (cases "scalar_one_or_none (select_complaint_raw db cid (tenant_id current_user))")
  case (Inl e)
  then show ?thesis by (simp add: get_complaint_analysis_def)
next
  case (Inr found)
  show ?thesis
  proof (cases found)
    case None
    with Inr show ?thesis by (simp add: get_complaint_analysis_def)
  next
    case (Some complaint)
    with Inr have "select_complaint_raw db cid (tenant_id current_user) = [complaint]"
      by (cases "select_complaint_raw db cid (tenant_id current_user)"
            rule: scalar_one_or_none.cases) auto
    then have "o_labels complaint = NotLoaded"
      using select_complaint_raw_not_loaded [of complaint db cid "tenant_id current_user"] by simp
    with Inr Some show ?thesis
      by (simp add: get_complaint_analysis_def analysis_of_object_raises)
  qed
qed

lemma results_key: "''results'' \<notin> set state_keys"
  by (simp add: state_keys_def)

lemma analysis_of_workflow_empty:
  "analysis_of_workflow cid (FinalState s) =
     Inr \<lparr> a_complaint_id = cid, a_entities = JDict [], a_classification = JDict [],
           a_risk_assessment = JDict [], a_similar_complaints = JList [],
           a_benchmarks = JDict [] \<rparr>"
  by (simp add: analysis_of_workflow_def results_key ComplaintAnalysis_def)

text \<open>
  Claim C2 says that for a complaint without label and risk rows the analysis endpoint
  runs the workflow and returns its entities, classification, risk assessment, similar
  complaints and benchmarks. The model shows what the source does instead: the endpoint
  reads \<^verbatim>\<open>complaint.labels\<close> on an object whose relationships are not loaded, which
  raises on the asynchronous session, so for a complaint of the caller's tenant the
  answer is the 500 response and the workflow is never called; no request is answered
  with an analysis. Behind that, the endpoint reads the key \<^verbatim>\<open>results\<close>, which the
  final state does not have: even from a run that ended with every field populated it
  would build the empty placeholders.
\<close>

theorem analysis_endpoint_answers_500:
  "get_complaint_analysis populated_workflow unlabelled_tables alice 1 =
     Inl \<lparr> status_code = 500, detail = ''Failed to retrieve complaint analysis'' \<rparr>
   \<and> get_complaint_analysis process unlabelled_tables alice 1 =
     Inl \<lparr> status_code = 500, detail = ''Failed to retrieve complaint analysis'' \<rparr>
   \<and> (get_complaint_analysis process db current_user cid =
         Inl \<lparr> status_code = 404, detail = ''Complaint not found'' \<rparr>
       \<or> get_complaint_analysis process db current_user cid =
         Inl \<lparr> status_code = 500, detail = ''Failed to retrieve complaint analysis'' \<rparr>)
   \<and> st_entities populated_state = JDict [(''product'', JStr ''credit_card'')]
   \<and> analysis_of_workflow 1 (FinalState populated_state) =
     Inr \<lparr> a_complaint_id = 1, a_entities = JDict [], a_classification = JDict [],
           a_risk_assessment = JDict [], a_similar_complaints = JList [],
           a_benchmarks = JDict [] \<rparr>"
proof -
  have found: "select_complaint_raw unlabelled_tables 1 (tenant_id alice) =
      [\<lparr> o_row = hd scored_twice_complaints, o_labels = NotLoaded, o_risk_scores = NotLoaded \<rparr>]"
    by (simp add: select_complaint_raw_def unlabelled_tables_def scored_twice_complaints_def alice_def)
  have a: "get_complaint_analysis p unlabelled_tables alice 1 =
     Inl \<lparr> status_code = 500, detail = ''Failed to retrieve complaint analysis'' \<rparr>" for p
    unfolding get_complaint_analysis_def found
    by (simp add: analysis_of_object_raises)
  have c: "st_entities populated_state = JDict [(''product'', JStr ''credit_card'')]"
    by (simp add: populated_state_def)
  show ?thesis
    using a get_complaint_analysis_never_answers [of process db current_user cid] c
      analysis_of_workflow_empty [of 1 populated_state]
    by simp
qed

end
